theory Spec2Isabelle
  imports Complex_Main "HOL-Library.Multiset"
begin

section \<open>Data of the notebook\<close>

text \<open>
  The notebook \<^verbatim>\<open>03-parcels-attach-blocks-network-nodes.ipynb\<close> works on three
  pandas frames: \<^verbatim>\<open>parcels\<close>, \<^verbatim>\<open>parcels_blocks\<close> and \<^verbatim>\<open>nodes\<close>. A frame is a list of
  rows, in positional order. A numpy \<^verbatim>\<open>float64\<close> is a real number or one of the three
  non-finite values; arithmetic on the finite values is exact here (rounding is not
  modelled).
\<close>

datatype float64 = Finite real | NaN | PosInf | NegInf

type_synonym point = "float64 \<times> float64"

text \<open>The Python exceptions that the notebook, pandas and the two libraries raise here.\<close>

datatype pyerr = AssertionError | ValueError | IndexError

fun isfinite :: "float64 \<Rightarrow> bool" where
  "isfinite (Finite r) = True"
| "isfinite NaN = False"
| "isfinite PosInf = False"
| "isfinite NegInf = False"

definition finite_point :: "point \<Rightarrow> bool" where
  "finite_point p = (isfinite (fst p) \<and> isfinite (snd p))"

text \<open>The real number a finite \<^verbatim>\<open>float64\<close> stands for (read only where the value is finite).\<close>

fun val :: "float64 \<Rightarrow> real" where
  "val (Finite r) = r"
| "val NaN = 0"
| "val PosInf = 0"
| "val NegInf = 0"

text \<open>
  \<^verbatim>\<open>nodes\<close>: the CSV of network nodes, indexed by \<^verbatim>\<open>osmid\<close>, with the columns \<^verbatim>\<open>x\<close>
  (longitude) and \<^verbatim>\<open>y\<close> (latitude), in degrees.
\<close>

record node_row =
  osmid :: int
  node_x :: float64
  node_y :: float64

text \<open>
  \<^verbatim>\<open>parcels\<close>: a row of the shapefile has its \<^verbatim>\<open>PARCEL_ID\<close> and its geometry, which may be
  missing. The only thing the notebook reads from a geometry is its centroid, so a
  geometry is represented by that point. The merge adds \<^verbatim>\<open>block_geoid\<close>, cells 10 and 11
  add \<^verbatim>\<open>x\<close> and \<^verbatim>\<open>y\<close>, and the nearest-neighbour cells add \<^verbatim>\<open>node\<close>.
\<close>

record shp_row =
  PARCEL_ID :: int
  geometry :: "point option"

record merged_row = shp_row +
  block_geoid :: "string option"

record located_row = merged_row +
  parcel_x :: float64
  parcel_y :: float64

record noded_row = located_row +
  node :: int

record saved_row =
  parcel_id :: int
  block_id :: "string option"
  node_id :: int

section \<open>The libraries the notebook calls\<close>

text \<open>
  \<^verbatim>\<open>scipy.spatial.cKDTree\<close> and \<^verbatim>\<open>sklearn.neighbors.BallTree\<close> are not code of the
  notebook. They are parameters of the model: a constructor from the coordinate array to
  a tree (or an exception), and a \<^verbatim>\<open>k=1\<close> query from a tree and an array of query points
  to the result arrays (or an exception). \<^verbatim>\<open>cKDTree.query\<close> returns the distances and
  the positions; \<^verbatim>\<open>BallTree.query\<close> with \<^verbatim>\<open>return_distance=False\<close> returns the positions
  only, as an array of shape (n, 1), represented by its one column, which is what
  \<^verbatim>\<open>idx[:,0]\<close> selects. The options \<^verbatim>\<open>compact_nodes\<close> and \<^verbatim>\<open>balanced_tree\<close> of the
  constructor shape the tree and are not arguments of the model.
\<close>

datatype metric = Euclidean | Haversine

record 't scipy_spatial =
  cKDTree :: "point list \<Rightarrow> pyerr + 't"
  cKDTree_query :: "'t \<Rightarrow> point list \<Rightarrow> pyerr + (float64 list \<times> nat list)"

record 't sklearn_neighbors =
  BallTree :: "point list \<Rightarrow> metric \<Rightarrow> pyerr + 't"
  BallTree_query :: "'t \<Rightarrow> point list \<Rightarrow> pyerr + nat list"

text \<open>The two distance functions, on finite points.\<close>

definition euclidean :: "point \<Rightarrow> point \<Rightarrow> real" where
  "euclidean p q = sqrt ((val (fst p) - val (fst q))\<^sup>2 + (val (snd p) - val (snd q))\<^sup>2)"

text \<open>
  scikit-learn's haversine distance of two points given as [latitude, longitude] in
  radians: \<^verbatim>\<open>2 arcsin(sqrt(sin^2(0.5*dlat) + cos(lat1)cos(lat2)sin^2(0.5*dlon)))\<close>.
\<close>

definition haversine :: "point \<Rightarrow> point \<Rightarrow> real" where
  "haversine p q =
     2 * arcsin (sqrt ((sin ((val (fst p) - val (fst q)) / 2))\<^sup>2
                       + cos (val (fst p)) * cos (val (fst q))
                         * (sin ((val (snd p) - val (snd q)) / 2))\<^sup>2))"

fun metric_dist :: "metric \<Rightarrow> point \<Rightarrow> point \<Rightarrow> real" where
  "metric_dist Euclidean = euclidean"
| "metric_dist Haversine = haversine"

section \<open>The cells of the notebook\<close>

text \<open>Cell 3: \<^verbatim>\<open>parcels.dropna(subset=['geometry'])\<close>.\<close>

definition dropna_geometry :: "shp_row list \<Rightarrow> shp_row list" where
  "dropna_geometry parcels = filter (\<lambda>r. geometry r \<noteq> None) parcels"

text \<open>
  Cell 8: \<^verbatim>\<open>pd.merge(left=parcels, right=parcels_blocks, how='left', left_index=True,
  right_index=True)\<close>. The right frame is a list of (parcel_id, block_geoid) rows. A left
  join keeps the order of the left rows; a left row gives one row for each right row
  with its key, and one row with a null \<^verbatim>\<open>block_geoid\<close> when there is none.
\<close>

definition merge_row :: "shp_row \<Rightarrow> string option \<Rightarrow> merged_row" where
  "merge_row r b = \<lparr>PARCEL_ID = PARCEL_ID r, geometry = geometry r, block_geoid = b\<rparr>"

definition pd_merge_left :: "shp_row list \<Rightarrow> (int \<times> string option) list \<Rightarrow> merged_row list" where
  "pd_merge_left left right =
     concat (map (\<lambda>r. case filter (\<lambda>kv. fst kv = PARCEL_ID r) right of
                         [] \<Rightarrow> [merge_row r None]
                       | m # ms \<Rightarrow> map (\<lambda>kv. merge_row r (snd kv)) (m # ms)) left)"

text \<open>
  Cells 10 and 11: the centroid of each geometry and its coordinates. The coordinates of
  a missing geometry are NaN.
\<close>

definition centroid_xy :: "merged_row \<Rightarrow> located_row" where
  "centroid_xy r =
     \<lparr>PARCEL_ID = PARCEL_ID r, geometry = geometry r, block_geoid = block_geoid r,
      parcel_x = (case geometry r of None \<Rightarrow> NaN | Some c \<Rightarrow> fst c),
      parcel_y = (case geometry r of None \<Rightarrow> NaN | Some c \<Rightarrow> snd c)\<rparr>"

text \<open>
  \<^verbatim>\<open>nodes.iloc[idx].index\<close>: the labels of the rows at the positions \<^verbatim>\<open>idx\<close>. A position
  out of range raises IndexError.
\<close>

definition iloc_index :: "node_row list \<Rightarrow> nat list \<Rightarrow> pyerr + int list" where
  "iloc_index nodes idx =
     (if list_all (\<lambda>i. i < length nodes) idx then Inr (map (\<lambda>i. osmid (nodes ! i)) idx)
      else Inl IndexError)"

text \<open>
  \<^verbatim>\<open>parcels['node'] = values\<close>: creates the column or replaces it, row by position.
  Values of another length than the frame raise ValueError.
\<close>

definition with_node :: "'a located_row_scheme \<Rightarrow> int \<Rightarrow> noded_row" where
  "with_node r i =
     \<lparr>PARCEL_ID = PARCEL_ID r, geometry = geometry r, block_geoid = block_geoid r,
      parcel_x = parcel_x r, parcel_y = parcel_y r, node = i\<rparr>"

definition set_node :: "'a located_row_scheme list \<Rightarrow> int list \<Rightarrow> pyerr + noded_row list" where
  "set_node parcels values =
     (if length values = length parcels then Inr (map2 with_node parcels values)
      else Inl ValueError)"

text \<open>
  Cells 13 and 14, the scipy euclidean method:
  \<^verbatim>\<open>tree = cKDTree(data=nodes[['x', 'y']], compact_nodes=True, balanced_tree=True)\<close>,
  \<^verbatim>\<open>dist, idx = tree.query(parcels[['x', 'y']], k=1)\<close>,
  \<^verbatim>\<open>parcels['node'] = nodes.iloc[idx].index\<close>.
\<close>

definition nodes_xy :: "node_row list \<Rightarrow> point list" where
  "nodes_xy nodes = map (\<lambda>n. (node_x n, node_y n)) nodes"

definition parcels_xy :: "'a located_row_scheme list \<Rightarrow> point list" where
  "parcels_xy parcels = map (\<lambda>p. (parcel_x p, parcel_y p)) parcels"

definition planar_nodes ::
  "'t scipy_spatial \<Rightarrow> node_row list \<Rightarrow> 'a located_row_scheme list \<Rightarrow> pyerr + noded_row list" where
  "planar_nodes K nodes parcels =
     (case cKDTree K (nodes_xy nodes) of
        Inl e \<Rightarrow> Inl e
      | Inr tree \<Rightarrow>
          (case cKDTree_query K tree (parcels_xy parcels) of
             Inl e \<Rightarrow> Inl e
           | Inr (dists, idx) \<Rightarrow>
               (case iloc_index nodes idx of
                  Inl e \<Rightarrow> Inl e
                | Inr ids \<Rightarrow> set_node parcels ids)))"

text \<open>
  Cells 16 to 18, the scikit-learn haversine method:
  \<^verbatim>\<open>nodes_rad = np.deg2rad(nodes[['y', 'x']])\<close>,
  \<^verbatim>\<open>parcels_rad = np.deg2rad(parcels[['y', 'x']])\<close>,
  \<^verbatim>\<open>tree = BallTree(nodes_rad, metric='haversine')\<close>,
  \<^verbatim>\<open>idx = tree.query(parcels_rad, k=1, return_distance=False)\<close>,
  \<^verbatim>\<open>parcels['node'] = nodes.iloc[idx[:,0]].index\<close>.
\<close>

fun deg2rad :: "float64 \<Rightarrow> float64" where
  "deg2rad (Finite d) = Finite (d * pi / 180)"
| "deg2rad NaN = NaN"
| "deg2rad PosInf = PosInf"
| "deg2rad NegInf = NegInf"

definition np_deg2rad :: "point list \<Rightarrow> point list" where
  "np_deg2rad rows = map (\<lambda>r. (deg2rad (fst r), deg2rad (snd r))) rows"

definition nodes_yx :: "node_row list \<Rightarrow> point list" where
  "nodes_yx nodes = map (\<lambda>n. (node_y n, node_x n)) nodes"

definition parcels_yx :: "'a located_row_scheme list \<Rightarrow> point list" where
  "parcels_yx parcels = map (\<lambda>p. (parcel_y p, parcel_x p)) parcels"

definition geodesic_nodes ::
  "'t sklearn_neighbors \<Rightarrow> node_row list \<Rightarrow> 'a located_row_scheme list \<Rightarrow> pyerr + noded_row list" where
  "geodesic_nodes B nodes parcels =
     (let nodes_rad = np_deg2rad (nodes_yx nodes);
          parcels_rad = np_deg2rad (parcels_yx parcels)
      in case BallTree B nodes_rad Haversine of
           Inl e \<Rightarrow> Inl e
         | Inr tree \<Rightarrow>
             (case BallTree_query B tree parcels_rad of
                Inl e \<Rightarrow> Inl e
              | Inr idx \<Rightarrow>
                  (case iloc_index nodes idx of
                     Inl e \<Rightarrow> Inl e
                   | Inr ids \<Rightarrow> set_node parcels ids)))"

text \<open>
  Cell 20: \<^verbatim>\<open>parcels.reset_index()[['PARCEL_ID', 'block_geoid', 'node']]\<close>, renamed to
  \<^verbatim>\<open>parcel_id\<close>, \<^verbatim>\<open>block_id\<close>, \<^verbatim>\<open>node_id\<close> and written as CSV.
\<close>

definition df_save :: "noded_row list \<Rightarrow> saved_row list" where
  "df_save parcels =
     map (\<lambda>r. \<lparr>parcel_id = PARCEL_ID r, block_id = block_geoid r, node_id = node r\<rparr>) parcels"

text \<open>Cells 3 to 11: the parcels with a geometry, their block and their centroid.\<close>

definition prepare_parcels :: "shp_row list \<Rightarrow> (int \<times> string option) list \<Rightarrow> located_row list" where
  "prepare_parcels shp parcels_blocks =
     map centroid_xy (pd_merge_left (dropna_geometry shp) parcels_blocks)"

text \<open>
  The notebook from the loaded frames to the saved CSV (cell 21 writes the same rows as a
  shapefile). Cell 7 converts columns to int and makes \<^verbatim>\<open>PARCEL_ID\<close> the index of the
  parcels; a row has its \<^verbatim>\<open>PARCEL_ID\<close> as an int from the start here. The three \<^verbatim>\<open>assert
  ....index.is_unique\<close> of cells 3 to 5 come first: the index of the parcels read from the
  shapefile is the row number, which is unique; the index of \<^verbatim>\<open>parcels_blocks\<close> is
  \<^verbatim>\<open>parcel_id\<close> and that of \<^verbatim>\<open>nodes\<close> is \<^verbatim>\<open>osmid\<close>.
\<close>

definition notebook ::
  "'k scipy_spatial \<Rightarrow> 'b sklearn_neighbors \<Rightarrow> shp_row list \<Rightarrow> (int \<times> string option) list
     \<Rightarrow> node_row list \<Rightarrow> pyerr + saved_row list" where
  "notebook K B shp parcels_blocks nodes =
     (if \<not> distinct (map fst parcels_blocks) then Inl AssertionError
      else if \<not> distinct (map osmid nodes) then Inl AssertionError
      else
        (case planar_nodes K nodes (prepare_parcels shp parcels_blocks) of
           Inl e \<Rightarrow> Inl e
         | Inr parcels \<Rightarrow>
             (case geodesic_nodes B nodes parcels of
                Inl e \<Rightarrow> Inl e
              | Inr parcels' \<Rightarrow> Inr (df_save parcels'))))"

section \<open>What the libraries promise, and reference instances\<close>

text \<open>
  \<open>nearest_positions d data X idx\<close>: \<open>idx\<close> answers the \<^verbatim>\<open>k=1\<close> query of the points \<open>X\<close>
  over the array \<open>data\<close> exactly, under the distance \<open>d\<close>: one position for each query
  point, in range, of a data point that no other data point beats.
\<close>

definition nearest_positions ::
  "(point \<Rightarrow> point \<Rightarrow> real) \<Rightarrow> point list \<Rightarrow> point list \<Rightarrow> nat list \<Rightarrow> bool" where
  "nearest_positions d data X idx \<longleftrightarrow>
     length idx = length X \<and>
     (\<forall>k<length X. idx ! k < length data \<and>
        (\<forall>j<length data. d (X ! k) (data ! (idx ! k)) \<le> d (X ! k) (data ! j)))"

text \<open>
  Modelled from the spec: the implementations of \<^verbatim>\<open>cKDTree.query\<close> and \<^verbatim>\<open>BallTree.query\<close>
  are library code and not in the repository. The spec says of the query engine that it
  returns, for each point, the single closest node under the configured metric, by exact
  \<^verbatim>\<open>k=1\<close> nearest-neighbour search, and the libraries document the same. The two
  predicates say it for non-empty arrays of finite points: construction succeeds and the
  query returns exact nearest neighbours (\<^verbatim>\<open>cKDTree.query\<close>, with the default \<^verbatim>\<open>p=2\<close>,
  under the Euclidean distance and together with the distances; \<^verbatim>\<open>BallTree.query\<close> under
  the metric the tree was built with). Nothing is asked about ties, nor about empty or
  non-finite input.
\<close>

definition exact_cKDTree :: "'t scipy_spatial \<Rightarrow> bool" where
  "exact_cKDTree K \<longleftrightarrow>
     (\<forall>data X. data \<noteq> [] \<and> X \<noteq> [] \<and> list_all finite_point data \<and> list_all finite_point X \<longrightarrow>
        (\<exists>tree dists idx. cKDTree K data = Inr tree \<and> cKDTree_query K tree X = Inr (dists, idx)
           \<and> nearest_positions euclidean data X idx
           \<and> dists = map2 (\<lambda>q i. Finite (euclidean q (data ! i))) X idx))"

definition exact_BallTree :: "'t sklearn_neighbors \<Rightarrow> bool" where
  "exact_BallTree B \<longleftrightarrow>
     (\<forall>m data X. data \<noteq> [] \<and> X \<noteq> [] \<and> list_all finite_point data \<and> list_all finite_point X \<longrightarrow>
        (\<exists>tree idx. BallTree B data m = Inr tree \<and> BallTree_query B tree X = Inr idx
           \<and> nearest_positions (metric_dist m) data X idx))"

text \<open>
  Modelled from the spec: what the two queries do with a non-finite coordinate is
  library code and not in the repository. The spec says that a query point with a
  non-finite coordinate fails rather than giving a NaN distance. The libraries validate
  the array of query points: the exception is ValueError, raised for the whole array.
\<close>

definition cKDTree_rejects_nonfinite :: "'t scipy_spatial \<Rightarrow> bool" where
  "cKDTree_rejects_nonfinite K \<longleftrightarrow>
     (\<forall>tree X. \<not> list_all finite_point X \<longrightarrow> cKDTree_query K tree X = Inl ValueError)"

definition BallTree_rejects_nonfinite :: "'t sklearn_neighbors \<Rightarrow> bool" where
  "BallTree_rejects_nonfinite B \<longleftrightarrow>
     (\<forall>tree X. \<not> list_all finite_point X \<longrightarrow> BallTree_query B tree X = Inl ValueError)"

text \<open>
  Reference instances of the two libraries, by linear scan; among equidistant points the
  first position wins. On the other inputs they behave as the libraries do: both
  raise ValueError on a non-finite coordinate; \<^verbatim>\<open>cKDTree\<close> accepts an empty array and
  then answers every query with the distance \<^verbatim>\<open>inf\<close> and the position \<^verbatim>\<open>n\<close> (a missing
  neighbour); \<^verbatim>\<open>BallTree\<close> raises ValueError on an empty array, for the data and for the
  query points.
\<close>

fun first_min :: "real list \<Rightarrow> nat" where
  "first_min [] = 0"
| "first_min [d] = 0"
| "first_min (d # e # ds) = (let j = first_min (e # ds) in if (e # ds) ! j < d then Suc j else 0)"

definition brute_force :: "(point \<Rightarrow> point \<Rightarrow> real) \<Rightarrow> point list \<Rightarrow> point \<Rightarrow> nat" where
  "brute_force d data q = first_min (map (d q) data)"

definition brute_cKDTree :: "(point list) scipy_spatial" where
  "brute_cKDTree =
     \<lparr>cKDTree = (\<lambda>data. if list_all finite_point data then Inr data else Inl ValueError),
      cKDTree_query = (\<lambda>tree X.
        if list_all finite_point X
        then Inr (map (\<lambda>q. if tree = [] then PosInf
                            else Finite (euclidean q (tree ! brute_force euclidean tree q))) X,
                  map (\<lambda>q. if tree = [] then length tree else brute_force euclidean tree q) X)
        else Inl ValueError)\<rparr>"

definition brute_BallTree :: "(point list \<times> metric) sklearn_neighbors" where
  "brute_BallTree =
     \<lparr>BallTree = (\<lambda>data m. if data = [] \<or> \<not> list_all finite_point data then Inl ValueError
                           else Inr (data, m)),
      BallTree_query = (\<lambda>tree X.
        if X = [] \<or> \<not> list_all finite_point X then Inl ValueError
        else Inr (map (brute_force (metric_dist (snd tree)) (fst tree)) X))\<rparr>"

section \<open>Notions the properties are stated with\<close>

definition finite_nodes :: "node_row list \<Rightarrow> bool" where
  "finite_nodes nodes = list_all (\<lambda>n. isfinite (node_x n) \<and> isfinite (node_y n)) nodes"

definition finite_parcels :: "'a located_row_scheme list \<Rightarrow> bool" where
  "finite_parcels parcels = list_all (\<lambda>p. isfinite (parcel_x p) \<and> isfinite (parcel_y p)) parcels"

text \<open>
  The distance between a parcel and a node under each method: the Euclidean distance of
  the (x, y) pairs, and the haversine distance of the (y, x) pairs in radians.
\<close>

definition planar_distance :: "'a located_row_scheme \<Rightarrow> node_row \<Rightarrow> real" where
  "planar_distance p n = euclidean (parcel_x p, parcel_y p) (node_x n, node_y n)"

definition geodesic_distance :: "'a located_row_scheme \<Rightarrow> node_row \<Rightarrow> real" where
  "geodesic_distance p n =
     haversine (deg2rad (parcel_y p), deg2rad (parcel_x p)) (deg2rad (node_y n), deg2rad (node_x n))"

text \<open>
  The great-circle distance on the unit sphere, from its geometry: the angle between the
  unit vectors of the two points, each given by latitude and longitude in radians.
\<close>

definition unit_vector :: "real \<Rightarrow> real \<Rightarrow> real \<times> real \<times> real" where
  "unit_vector lat lon = (cos lat * cos lon, cos lat * sin lon, sin lat)"

fun dot3 :: "real \<times> real \<times> real \<Rightarrow> real \<times> real \<times> real \<Rightarrow> real" where
  "dot3 (a, b, c) (a', b', c') = a * a' + b * b' + c * c'"

definition great_circle :: "real \<Rightarrow> real \<Rightarrow> real \<Rightarrow> real \<Rightarrow> real" where
  "great_circle lat1 lon1 lat2 lon2 = arccos (dot3 (unit_vector lat1 lon1) (unit_vector lat2 lon2))"

definition radians :: "real \<Rightarrow> real" where
  "radians d = d * pi / 180"

text \<open>
  The great-circle distance between a parcel and a node whose \<^verbatim>\<open>x\<close> is the longitude and
  whose \<^verbatim>\<open>y\<close> is the latitude, in degrees.
\<close>

definition great_circle_deg :: "'a located_row_scheme \<Rightarrow> node_row \<Rightarrow> real" where
  "great_circle_deg p n =
     great_circle (radians (val (parcel_y p))) (radians (val (parcel_x p)))
                  (radians (val (node_y n))) (radians (val (node_x n)))"

text \<open>The block of a parcel id in the lookup table: null when the id is not a key.\<close>

definition block_of :: "(int \<times> string option) list \<Rightarrow> int \<Rightarrow> string option" where
  "block_of parcels_blocks k = (case map_of parcels_blocks k of None \<Rightarrow> None | Some b \<Rightarrow> b)"

section \<open>Sample frames\<close>

text \<open>
  A parcel at the north pole, a node at the pole under another longitude and a node ten
  degrees south of it: the first node is the nearer one on the sphere, the second one in
  the plane of the degree values.
\<close>

definition pole_nodes :: "node_row list" where
  "pole_nodes = [\<lparr>osmid = 1, node_x = Finite 180, node_y = Finite 90\<rparr>,
                 \<lparr>osmid = 2, node_x = Finite 0, node_y = Finite 80\<rparr>]"

definition pole_shp :: "shp_row list" where
  "pole_shp = [\<lparr>PARCEL_ID = 7, geometry = Some (Finite 0, Finite 90)\<rparr>,
               \<lparr>PARCEL_ID = 8, geometry = None\<rparr>,
               \<lparr>PARCEL_ID = 9, geometry = Some (Finite 0, Finite 90)\<rparr>]"

definition pole_blocks :: "(int \<times> string option) list" where
  "pole_blocks = [(7, Some ''060750101001000'')]"

definition pole_parcels :: "located_row list" where
  "pole_parcels =
     [\<lparr>PARCEL_ID = 7, geometry = Some (Finite 0, Finite 90), block_geoid = Some ''060750101001000'',
       parcel_x = Finite 0, parcel_y = Finite 90\<rparr>,
      \<lparr>PARCEL_ID = 9, geometry = Some (Finite 0, Finite 90), block_geoid = None,
       parcel_x = Finite 0, parcel_y = Finite 90\<rparr>]"

text \<open>A batch whose first parcel has a NaN coordinate.\<close>

definition nan_parcels :: "located_row list" where
  "nan_parcels =
     [\<lparr>PARCEL_ID = 5, geometry = Some (NaN, Finite 90), block_geoid = None,
       parcel_x = NaN, parcel_y = Finite 90\<rparr>,
      \<lparr>PARCEL_ID = 7, geometry = Some (Finite 0, Finite 90), block_geoid = None,
       parcel_x = Finite 0, parcel_y = Finite 90\<rparr>]"

text \<open>
  Two nodes with different ids at the same coordinates, a parcel on them, and a parcel on
  the second node of the first sample.
\<close>

definition twin_nodes :: "node_row list" where
  "twin_nodes = [\<lparr>osmid = 1, node_x = Finite 0, node_y = Finite 0\<rparr>,
                 \<lparr>osmid = 2, node_x = Finite 0, node_y = Finite 0\<rparr>]"

definition origin_parcels :: "located_row list" where
  "origin_parcels =
     [\<lparr>PARCEL_ID = 7, geometry = Some (Finite 0, Finite 0), block_geoid = None,
       parcel_x = Finite 0, parcel_y = Finite 0\<rparr>]"

definition south_parcel :: located_row where
  "south_parcel =
     \<lparr>PARCEL_ID = 3, geometry = Some (Finite 0, Finite 80), block_geoid = None,
      parcel_x = Finite 0, parcel_y = Finite 80\<rparr>"

section \<open>Lemmas\<close>

subsection \<open>The merge\<close>

lemma filter_key_distinct:
  "distinct (map fst right) \<Longrightarrow>
   filter (\<lambda>kv. fst kv = k) right = (case map_of right k of None \<Rightarrow> [] | Some v \<Rightarrow> [(k, v)])"
proof (induction right)
  case Nil
  then show ?case by simp
next
  case (Cons a right)
  obtain k' v' where a: "a = (k', v')" by (cases a)
  show ?case
  proof (cases "k' = k")
    case True
    with Cons.prems a have "k \<notin> fst ` set right" by auto
    then have "filter (\<lambda>kv. fst kv = k) right = []"
      by (auto simp: filter_empty_conv)
    with True a show ?thesis by simp
  next
    case False
    with Cons a show ?thesis by simp
  qed
qed

lemma pd_merge_left_distinct:
  assumes "distinct (map fst right)"
  shows "pd_merge_left left right = map (\<lambda>r. merge_row r (block_of right (PARCEL_ID r))) left"
proof -
  have "(case filter (\<lambda>kv. fst kv = PARCEL_ID r) right of
            [] \<Rightarrow> [merge_row r None]
          | m # ms \<Rightarrow> map (\<lambda>kv. merge_row r (snd kv)) (m # ms))
        = [merge_row r (block_of right (PARCEL_ID r))]" for r
    by (simp add: filter_key_distinct[OF assms] block_of_def split: option.splits)
  then show ?thesis
    by (simp add: pd_merge_left_def)
qed

lemma block_of_absent: "k \<notin> fst ` set right \<Longrightarrow> block_of right k = None"
  by (simp add: block_of_def map_of_eq_None_iff[THEN iffD2])

lemma block_of_present: "distinct (map fst right) \<Longrightarrow> (k, b) \<in> set right \<Longrightarrow> block_of right k = b"
  by (simp add: block_of_def)

lemma prepare_parcels_distinct:
  assumes "distinct (map fst parcels_blocks)"
  shows "map PARCEL_ID (prepare_parcels shp parcels_blocks) = map PARCEL_ID (dropna_geometry shp)"
    and "map block_geoid (prepare_parcels shp parcels_blocks)
           = map (\<lambda>r. block_of parcels_blocks (PARCEL_ID r)) (dropna_geometry shp)"
  by (simp_all add: prepare_parcels_def pd_merge_left_distinct[OF assms] centroid_xy_def
      merge_row_def comp_def)

subsection \<open>The haversine distance\<close>

lemma haversine_square:
  fixes a b c d :: real
  shows "(sin ((a - b) / 2))\<^sup>2 + cos a * cos b * (sin ((c - d) / 2))\<^sup>2
         = (1 - (cos a * cos c * (cos b * cos d) + cos a * sin c * (cos b * sin d) + sin a * sin b)) / 2"
proof -
  have s: "(sin (t / 2))\<^sup>2 = (1 - cos t) / 2" for t :: real
    using cos_double_sin[of "t / 2"] by simp
  have "cos (c - d) = cos c * cos d + sin c * sin d" by (rule cos_diff)
  moreover have "cos (a - b) = cos a * cos b + sin a * sin b" by (rule cos_diff)
  ultimately show ?thesis
    unfolding s by (simp add: field_simps)
qed

lemma convex_bound:
  fixes t u v :: real
  assumes "0 \<le> t" "t \<le> 1" "- 1 \<le> u" "u \<le> 1" "- 1 \<le> v" "v \<le> 1"
  shows "- 1 \<le> t * u + (1 - t) * v \<and> t * u + (1 - t) * v \<le> 1"
proof -
  have "t * u \<le> t * 1"
    by (rule mult_left_mono) (use assms in simp_all)
  moreover have "t * (- 1) \<le> t * u"
    by (rule mult_left_mono) (use assms in simp_all)
  moreover have "(1 - t) * v \<le> (1 - t) * 1"
    by (rule mult_left_mono) (use assms in simp_all)
  moreover have "(1 - t) * (- 1) \<le> (1 - t) * v"
    by (rule mult_left_mono) (use assms in simp_all)
  ultimately show ?thesis by (simp add: algebra_simps)
qed

lemma dot_bounds:
  fixes a b c d :: real
  defines "w \<equiv> cos a * cos c * (cos b * cos d) + cos a * sin c * (cos b * sin d) + sin a * sin b"
  shows "- 1 \<le> w \<and> w \<le> 1"
proof -
  have w: "w = cos a * cos b * cos (c - d) + sin a * sin b"
    unfolding w_def cos_diff by (simp add: algebra_simps)
  define t where "t = (1 + cos (c - d)) / 2"
  have half: "0 \<le> (1 + u) / 2 \<and> (1 + u) / 2 \<le> 1" if "- 1 \<le> u" "u \<le> 1" for u :: real
    using that by auto
  have t: "0 \<le> t" "t \<le> 1"
    unfolding t_def using half[OF cos_ge_minus_one[of "c - d"] cos_le_one[of "c - d"]] by blast+
  have alg: "P * u + Q = (1 + u) / 2 * (P + Q) + (1 - (1 + u) / 2) * (- (P - Q))" for P Q u :: real
    by (simp add: field_simps)
  have "w = t * cos (a - b) + (1 - t) * (- cos (a + b))"
    unfolding w t_def cos_diff[of a b] cos_add[of a b]
    using alg[of "cos a * cos b" "cos (c - d)" "sin a * sin b"] by simp
  moreover have "- 1 \<le> - cos (a + b)" "- cos (a + b) \<le> 1" by simp_all
  ultimately show ?thesis
    using convex_bound[OF t cos_ge_minus_one[of "a - b"] cos_le_one[of "a - b"], of "- cos (a + b)"]
    by simp
qed

lemma arcsin_half_angle:
  fixes w :: real
  assumes "-1 \<le> w" "w \<le> 1"
  shows "2 * arcsin (sqrt ((1 - w) / 2)) = arccos w"
proof -
  define t where "t = arccos w"
  have range: "0 \<le> t" "t \<le> pi" using assms by (simp_all add: t_def arccos_lbound arccos_ubound)
  have cw: "cos t = w" using assms by (simp add: t_def)
  have "(sin (t / 2))\<^sup>2 = (1 - w) / 2"
    using cos_double_sin[of "t / 2"] cw by simp
  moreover have "0 \<le> sin (t / 2)" using range by (intro sin_ge_zero) simp_all
  ultimately have "sqrt ((1 - w) / 2) = sin (t / 2)"
    by (metis real_sqrt_abs abs_of_nonneg)
  moreover have "arcsin (sin (t / 2)) = t / 2"
    using range by (intro arcsin_sin) simp_all
  ultimately show ?thesis by (simp add: t_def)
qed


lemma haversine_great_circle:
  "haversine (Finite lat1, Finite lon1) (Finite lat2, Finite lon2) = great_circle lat1 lon1 lat2 lon2"
proof -
  define w where "w = cos lat1 * cos lon1 * (cos lat2 * cos lon2)
                      + cos lat1 * sin lon1 * (cos lat2 * sin lon2) + sin lat1 * sin lat2"
  have "- 1 \<le> w \<and> w \<le> 1" unfolding w_def by (rule dot_bounds)
  then have "2 * arcsin (sqrt ((1 - w) / 2)) = arccos w" by (simp add: arcsin_half_angle)
  then show ?thesis
    by (simp add: haversine_def great_circle_def unit_vector_def haversine_square w_def)
qed

lemma great_circle_nonneg: "0 \<le> great_circle lat1 lon1 lat2 lon2"
proof -
  have "- 1 \<le> dot3 (unit_vector lat1 lon1) (unit_vector lat2 lon2)
        \<and> dot3 (unit_vector lat1 lon1) (unit_vector lat2 lon2) \<le> 1"
    using dot_bounds[of lat1 lon1 lat2 lon2] by (simp add: unit_vector_def)
  then show ?thesis by (simp add: great_circle_def arccos_lbound)
qed

lemma haversine_not_negative:
  "\<not> haversine (Finite lat1, Finite lon1) (Finite lat2, Finite lon2) < 0"
  by (simp add: haversine_great_circle great_circle_nonneg not_less)

lemma haversine_at_pole: "haversine (Finite (pi / 2), lon1) (Finite (pi / 2), lon2) = 0"
  by (simp add: haversine_def)

subsection \<open>The nearest-neighbour cells\<close>

lemma set_node_columns:
  assumes "set_node parcels vals = Inr out"
  shows "length vals = length parcels" and "out = map2 with_node parcels vals"
    and "map PARCEL_ID out = map PARCEL_ID parcels" and "map block_geoid out = map block_geoid parcels"
    and "map node out = vals" and "parcels_xy out = parcels_xy parcels"
    and "parcels_yx out = parcels_yx parcels" and "length out = length parcels"
proof -
  from assms show len: "length vals = length parcels" and out: "out = map2 with_node parcels vals"
    by (auto simp: set_node_def split: if_splits)
  have col: "map f out = map g parcels" if "\<And>r i. f (with_node r i) = g r" for f :: "noded_row \<Rightarrow> 'c" and g
    unfolding out using len that
    by (induction parcels vals rule: list_induct2') auto
  show "map PARCEL_ID out = map PARCEL_ID parcels" by (rule col) (simp add: with_node_def)
  show "map block_geoid out = map block_geoid parcels" by (rule col) (simp add: with_node_def)
  show "parcels_xy out = parcels_xy parcels"
    unfolding parcels_xy_def by (rule col) (simp add: with_node_def)
  show "parcels_yx out = parcels_yx parcels"
    unfolding parcels_yx_def by (rule col) (simp add: with_node_def)
  show "map node out = vals"
    unfolding out using len
    by (induction parcels vals rule: list_induct2') (auto simp: with_node_def)
  show "length out = length parcels" unfolding out using len by simp
qed

lemma set_node_again:
  assumes "set_node parcels vals = Inr out"
  shows "set_node out vals' = set_node parcels vals'"
proof -
  have len: "length out = length parcels" by (rule set_node_columns[OF assms])
  have "map2 with_node out vs = map2 with_node parcels vs" if "length vs = length parcels" for vs
    unfolding set_node_columns(2)[OF assms] using set_node_columns(1)[OF assms] that
  proof (induction parcels vals arbitrary: vs rule: list_induct2')
    case (4 x xs y ys)
    then show ?case by (cases vs) (auto simp: with_node_def)
  qed auto
  with len show ?thesis by (simp add: set_node_def)
qed

lemma planar_nodes_Inr:
  assumes "planar_nodes K nodes parcels = Inr out"
  obtains tree dists idx where "cKDTree K (nodes_xy nodes) = Inr tree"
    and "cKDTree_query K tree (parcels_xy parcels) = Inr (dists, idx)"
    and "list_all (\<lambda>i. i < length nodes) idx"
    and "set_node parcels (map (\<lambda>i. osmid (nodes ! i)) idx) = Inr out"
  using assms
  by (auto simp: planar_nodes_def iloc_index_def split: sum.splits if_splits prod.splits)

lemma geodesic_nodes_Inr:
  assumes "geodesic_nodes B nodes parcels = Inr out"
  obtains tree idx where "BallTree B (np_deg2rad (nodes_yx nodes)) Haversine = Inr tree"
    and "BallTree_query B tree (np_deg2rad (parcels_yx parcels)) = Inr idx"
    and "list_all (\<lambda>i. i < length nodes) idx"
    and "set_node parcels (map (\<lambda>i. osmid (nodes ! i)) idx) = Inr out"
  using assms
  by (auto simp: geodesic_nodes_def Let_def iloc_index_def split: sum.splits if_splits)

lemma geodesic_nodes_after_set_node:
  assumes "set_node parcels vals = Inr ps"
  shows "geodesic_nodes B nodes ps = geodesic_nodes B nodes parcels"
  by (simp add: geodesic_nodes_def set_node_columns(7)[OF assms] set_node_again[OF assms]
      cong: sum.case_cong)

lemma iloc_index_in_nodes:
  assumes "list_all (\<lambda>i. i < length nodes) idx"
  shows "set (map (\<lambda>i. osmid (nodes ! i)) idx) \<subseteq> osmid ` set nodes"
  using assms by (auto simp: list_all_iff)

lemma no_position_in_empty_frame:
  assumes "list_all (\<lambda>i. i < length nodes) idx" and "nodes = []"
    and "set_node parcels (map (\<lambda>i. osmid (nodes ! i)) idx) = Inr out"
  shows "parcels = []"
proof -
  from assms(1,2) have "idx = []" by (cases idx) auto
  with set_node_columns(1)[OF assms(3)] show ?thesis by simp
qed

subsection \<open>The reference instances are exact\<close>

lemma first_min_less: "ds \<noteq> [] \<Longrightarrow> first_min ds < length ds"
  by (induction ds rule: first_min.induct) (auto simp: Let_def)

lemma first_min_le: "j < length ds \<Longrightarrow> ds ! first_min ds \<le> ds ! j"
proof (induction ds arbitrary: j rule: first_min.induct)
  case 1
  then show ?case by simp
next
  case (2 d)
  then show ?case by simp
next
  case (3 d e ds)
  show ?case
  proof (cases j)
    case 0
    then show ?thesis by (auto simp: Let_def)
  next
    case (Suc i)
    with "3.prems" have "i < length (e # ds)" by simp
    from "3.IH"[OF this] Suc show ?thesis by (auto simp: Let_def)
  qed
qed

lemma brute_force_nearest:
  assumes "data \<noteq> []"
  shows "nearest_positions d data X (map (brute_force d data) X)"
  unfolding nearest_positions_def brute_force_def
proof (intro conjI allI impI)
  show "length (map (\<lambda>q. first_min (map (d q) data)) X) = length X" by simp
next
  fix k assume k: "k < length X"
  from assms have "first_min (map (d (X ! k)) data) < length (map (d (X ! k)) data)"
    by (intro first_min_less) simp
  with k show "map (\<lambda>q. first_min (map (d q) data)) X ! k < length data" by simp
next
  fix k j assume k: "k < length X" and j: "j < length data"
  have lt: "first_min (map (d (X ! k)) data) < length data"
    using first_min_less[of "map (d (X ! k)) data"] assms by simp
  from j have "map (d (X ! k)) data ! first_min (map (d (X ! k)) data) \<le> map (d (X ! k)) data ! j"
    by (intro first_min_le) simp
  with k j lt show "d (X ! k) (data ! (map (\<lambda>q. first_min (map (d q) data)) X ! k)) \<le> d (X ! k) (data ! j)"
    by simp
qed

lemma brute_cKDTree_exact: "exact_cKDTree brute_cKDTree"
  unfolding exact_cKDTree_def
proof (intro allI impI)
  fix data X :: "point list"
  assume a: "data \<noteq> [] \<and> X \<noteq> [] \<and> list_all finite_point data \<and> list_all finite_point X"
  have "map (\<lambda>q. Finite (euclidean q (data ! brute_force euclidean data q))) X
        = map2 (\<lambda>q i. Finite (euclidean q (data ! i))) X (map (brute_force euclidean data) X)"
    by (induction X) auto
  with a brute_force_nearest[of data euclidean X]
  show "\<exists>tree dists idx. cKDTree brute_cKDTree data = Inr tree
          \<and> cKDTree_query brute_cKDTree tree X = Inr (dists, idx)
          \<and> nearest_positions euclidean data X idx
          \<and> dists = map2 (\<lambda>q i. Finite (euclidean q (data ! i))) X idx"
    by (simp add: brute_cKDTree_def)
qed

lemma brute_BallTree_exact: "exact_BallTree brute_BallTree"
  unfolding exact_BallTree_def
  using brute_force_nearest by (simp add: brute_BallTree_def)

subsection \<open>The cells under exact libraries\<close>

lemma finite_nodes_xy:
  "finite_nodes nodes \<Longrightarrow> list_all finite_point (nodes_xy nodes)"
  by (simp add: finite_nodes_def nodes_xy_def finite_point_def list_all_iff)

lemma finite_parcels_xy:
  "finite_parcels parcels \<Longrightarrow> list_all finite_point (parcels_xy parcels)"
  by (simp add: finite_parcels_def parcels_xy_def finite_point_def list_all_iff)

lemma isfinite_deg2rad: "isfinite (deg2rad v) = isfinite v"
  by (cases v) simp_all

lemma deg2rad_finite: "isfinite v \<Longrightarrow> deg2rad v = Finite (radians (val v))"
  by (cases v) (simp_all add: radians_def)

lemma finite_nodes_rad:
  "finite_nodes nodes \<Longrightarrow> list_all finite_point (np_deg2rad (nodes_yx nodes))"
  by (simp add: finite_nodes_def nodes_yx_def np_deg2rad_def finite_point_def list_all_iff
      isfinite_deg2rad)

lemma finite_parcels_rad:
  "finite_parcels parcels \<Longrightarrow> list_all finite_point (np_deg2rad (parcels_yx parcels))"
  by (simp add: finite_parcels_def parcels_yx_def np_deg2rad_def finite_point_def list_all_iff
      isfinite_deg2rad)

lemma nearest_positions_in_range:
  "nearest_positions d data X idx \<Longrightarrow> list_all (\<lambda>i. i < length data) idx"
  by (simp add: nearest_positions_def list_all_length)

lemma planar_nodes_exact:
  assumes "exact_cKDTree K" "nodes \<noteq> []" "parcels \<noteq> []" "finite_nodes nodes" "finite_parcels parcels"
  obtains tree dists idx where "cKDTree K (nodes_xy nodes) = Inr tree"
    and "cKDTree_query K tree (parcels_xy parcels) = Inr (dists, idx)"
    and "nearest_positions euclidean (nodes_xy nodes) (parcels_xy parcels) idx"
    and "dists = map2 (\<lambda>q i. Finite (euclidean q (nodes_xy nodes ! i))) (parcels_xy parcels) idx"
    and "planar_nodes K nodes parcels = Inr (map2 with_node parcels (map (\<lambda>i. osmid (nodes ! i)) idx))"
proof -
  have "nodes_xy nodes \<noteq> []" "parcels_xy parcels \<noteq> []"
    using assms(2,3) by (simp_all add: nodes_xy_def parcels_xy_def)
  with assms(1) finite_nodes_xy[OF assms(4)] finite_parcels_xy[OF assms(5)]
  obtain tree dists idx where t: "cKDTree K (nodes_xy nodes) = Inr tree"
    and q: "cKDTree_query K tree (parcels_xy parcels) = Inr (dists, idx)"
    and n: "nearest_positions euclidean (nodes_xy nodes) (parcels_xy parcels) idx"
    and d: "dists = map2 (\<lambda>q i. Finite (euclidean q (nodes_xy nodes ! i))) (parcels_xy parcels) idx"
    unfolding exact_cKDTree_def by blast
  from n have "list_all (\<lambda>i. i < length nodes) idx" "length idx = length parcels"
    using nearest_positions_in_range[OF n]
    by (simp_all add: nodes_xy_def parcels_xy_def nearest_positions_def)
  with t q have "planar_nodes K nodes parcels = Inr (map2 with_node parcels (map (\<lambda>i. osmid (nodes ! i)) idx))"
    by (simp add: planar_nodes_def iloc_index_def set_node_def)
  with t q n d show ?thesis by (rule that)
qed

lemma geodesic_nodes_exact:
  assumes "exact_BallTree B" "nodes \<noteq> []" "parcels \<noteq> []" "finite_nodes nodes" "finite_parcels parcels"
  obtains tree idx where "BallTree B (np_deg2rad (nodes_yx nodes)) Haversine = Inr tree"
    and "BallTree_query B tree (np_deg2rad (parcels_yx parcels)) = Inr idx"
    and "nearest_positions haversine (np_deg2rad (nodes_yx nodes)) (np_deg2rad (parcels_yx parcels)) idx"
    and "geodesic_nodes B nodes parcels = Inr (map2 with_node parcels (map (\<lambda>i. osmid (nodes ! i)) idx))"
proof -
  have "np_deg2rad (nodes_yx nodes) \<noteq> []" "np_deg2rad (parcels_yx parcels) \<noteq> []"
    using assms(2,3) by (simp_all add: nodes_yx_def parcels_yx_def np_deg2rad_def)
  with assms(1) finite_nodes_rad[OF assms(4)] finite_parcels_rad[OF assms(5)]
  obtain tree idx where t: "BallTree B (np_deg2rad (nodes_yx nodes)) Haversine = Inr tree"
    and q: "BallTree_query B tree (np_deg2rad (parcels_yx parcels)) = Inr idx"
    and n: "nearest_positions (metric_dist Haversine) (np_deg2rad (nodes_yx nodes))
              (np_deg2rad (parcels_yx parcels)) idx"
    unfolding exact_BallTree_def by blast
  from n have n': "nearest_positions haversine (np_deg2rad (nodes_yx nodes))
              (np_deg2rad (parcels_yx parcels)) idx" by simp
  from n' have "list_all (\<lambda>i. i < length nodes) idx" "length idx = length parcels"
    using nearest_positions_in_range[OF n']
    by (simp_all add: nodes_yx_def parcels_yx_def np_deg2rad_def nearest_positions_def)
  with t q have "geodesic_nodes B nodes parcels = Inr (map2 with_node parcels (map (\<lambda>i. osmid (nodes ! i)) idx))"
    by (simp add: geodesic_nodes_def iloc_index_def set_node_def)
  with t q n' show ?thesis by (rule that)
qed

text \<open>The positions of an exact answer, read on the rows of the two frames.\<close>

lemma nearest_positions_rows:
  assumes "nearest_positions d (map f nodes) (map g parcels) idx" and "k < length parcels"
  shows "idx ! k < length nodes"
    and "m \<in> set nodes \<Longrightarrow> d (g (parcels ! k)) (f (nodes ! (idx ! k))) \<le> d (g (parcels ! k)) (f m)"
proof -
  from assms show lt: "idx ! k < length nodes" by (simp add: nearest_positions_def)
  assume "m \<in> set nodes"
  then obtain j where j: "j < length nodes" "nodes ! j = m" by (auto simp: in_set_conv_nth)
  with assms lt show "d (g (parcels ! k)) (f (nodes ! (idx ! k))) \<le> d (g (parcels ! k)) (f m)"
    by (auto simp: nearest_positions_def)
qed

lemma nodes_xy_map: "nodes_xy nodes = map (\<lambda>n. (node_x n, node_y n)) nodes"
  by (simp add: nodes_xy_def)

lemma parcels_xy_map: "parcels_xy parcels = map (\<lambda>p. (parcel_x p, parcel_y p)) parcels"
  by (simp add: parcels_xy_def)

lemma nodes_rad_map:
  "np_deg2rad (nodes_yx nodes) = map (\<lambda>n. (deg2rad (node_y n), deg2rad (node_x n))) nodes"
  by (simp add: np_deg2rad_def nodes_yx_def)

lemma parcels_rad_map:
  "np_deg2rad (parcels_yx parcels) = map (\<lambda>p. (deg2rad (parcel_y p), deg2rad (parcel_x p))) parcels"
  by (simp add: np_deg2rad_def parcels_yx_def)

text \<open>Every parcel gets a node that minimises the distance \<open>D\<close> the positions are exact for.\<close>

lemma attached_node_minimises:
  assumes "nearest_positions d (map f nodes) (map g parcels) idx"
    and "\<And>p n. D p n = d (g p) (f n)"
  shows "\<forall>k<length parcels. \<exists>n\<in>set nodes.
           node (map2 with_node parcels (map (\<lambda>i. osmid (nodes ! i)) idx) ! k) = osmid n
           \<and> (\<forall>m\<in>set nodes. D (parcels ! k) n \<le> D (parcels ! k) m)"
proof (intro allI impI)
  fix k assume k: "k < length parcels"
  from assms(1) have len: "length idx = length parcels" by (simp add: nearest_positions_def)
  have lt: "idx ! k < length nodes" by (rule nearest_positions_rows(1)[OF assms(1) k])
  have "node (map2 with_node parcels (map (\<lambda>i. osmid (nodes ! i)) idx) ! k) = osmid (nodes ! (idx ! k))"
    using len k by (simp add: with_node_def)
  moreover have "\<forall>m\<in>set nodes. D (parcels ! k) (nodes ! (idx ! k)) \<le> D (parcels ! k) m"
    using nearest_positions_rows(2)[OF assms(1) k] by (simp add: assms(2))
  moreover have "nodes ! (idx ! k) \<in> set nodes" using lt by simp
  ultimately show "\<exists>n\<in>set nodes.
           node (map2 with_node parcels (map (\<lambda>i. osmid (nodes ! i)) idx) ! k) = osmid n
           \<and> (\<forall>m\<in>set nodes. D (parcels ! k) n \<le> D (parcels ! k) m)"
    by blast
qed

lemma geodesic_distance_great_circle:
  assumes "isfinite (parcel_x p)" "isfinite (parcel_y p)" "isfinite (node_x n)" "isfinite (node_y n)"
  shows "geodesic_distance p n = great_circle_deg p n"
  using assms
  by (simp add: geodesic_distance_def great_circle_deg_def deg2rad_finite haversine_great_circle)

lemma finite_nodes_nth: "finite_nodes nodes \<Longrightarrow> n \<in> set nodes \<Longrightarrow> isfinite (node_x n) \<and> isfinite (node_y n)"
  by (simp add: finite_nodes_def list_all_iff)

lemma finite_parcels_nth:
  "finite_parcels parcels \<Longrightarrow> p \<in> set parcels \<Longrightarrow> isfinite (parcel_x p) \<and> isfinite (parcel_y p)"
  by (simp add: finite_parcels_def list_all_iff)

lemma euclidean_zero:
  assumes "finite_point a" "finite_point b" "euclidean a b \<le> 0"
  shows "b = a"
proof -
  obtain a1 a2 b1 b2 where ab: "a = (Finite a1, Finite a2)" "b = (Finite b1, Finite b2)"
    using assms(1,2) unfolding finite_point_def
    by (cases a, cases b, cases "fst a", cases "snd a", cases "fst b", cases "snd b") auto
  from assms(3) have "(a1 - b1)\<^sup>2 + (a2 - b2)\<^sup>2 \<le> 0"
    by (simp add: euclidean_def ab)
  moreover have "0 \<le> (a1 - b1)\<^sup>2" "0 \<le> (a2 - b2)\<^sup>2" by simp_all
  ultimately have "(a1 - b1)\<^sup>2 = 0" "(a2 - b2)\<^sup>2 = 0" by linarith+
  then show ?thesis by (simp add: ab)
qed

lemma euclidean_self: "euclidean a a = 0"
  by (simp add: euclidean_def)

lemma unique_nearest_ids:
  assumes a: "nearest_positions d (map f N) (map g parcels) idx"
    and b: "nearest_positions d (map f N') (map g parcels) idx'"
    and s: "set N' = set N"
    and u: "\<forall>p\<in>set parcels. \<exists>n\<in>set N. \<forall>m\<in>set N. osmid m \<noteq> osmid n \<longrightarrow> d (g p) (f n) < d (g p) (f m)"
  shows "map (\<lambda>i. osmid (N ! i)) idx = map (\<lambda>i. osmid (N' ! i)) idx'"
proof (rule nth_equalityI)
  from a b show len: "length (map (\<lambda>i. osmid (N ! i)) idx) = length (map (\<lambda>i. osmid (N' ! i)) idx')"
    by (simp add: nearest_positions_def)
  fix k assume "k < length (map (\<lambda>i. osmid (N ! i)) idx)"
  with a have k: "k < length parcels" by (simp add: nearest_positions_def)
  with a b have ki: "k < length idx" "k < length idx'" by (simp_all add: nearest_positions_def)
  from u k obtain n where n: "n \<in> set N"
    and far: "\<And>m. m \<in> set N \<Longrightarrow> osmid m \<noteq> osmid n \<Longrightarrow> d (g (parcels ! k)) (f n) < d (g (parcels ! k)) (f m)"
    by (metis nth_mem)
  have near: "osmid (M ! (j ! k)) = osmid n"
    if np: "nearest_positions d (map f M) (map g parcels) j" and sm: "set M = set N" for M j
  proof (rule ccontr)
    assume ne: "osmid (M ! (j ! k)) \<noteq> osmid n"
    have "j ! k < length M" by (rule nearest_positions_rows(1)[OF np k])
    then have "M ! (j ! k) \<in> set M" by (rule nth_mem)
    then have "M ! (j ! k) \<in> set N" unfolding sm .
    from far[OF this ne] nearest_positions_rows(2)[OF np k, of n] n sm
    show False by simp
  qed
  from near[OF a refl] near[OF b s] ki
  show "map (\<lambda>i. osmid (N ! i)) idx ! k = map (\<lambda>i. osmid (N' ! i)) idx' ! k" by simp
qed

lemma finite_nodes_set: "set nodes' = set nodes \<Longrightarrow> finite_nodes nodes' = finite_nodes nodes"
  by (simp add: finite_nodes_def list_all_iff)

subsection \<open>A non-finite coordinate in the batch\<close>

lemma brute_cKDTree_rejects: "cKDTree_rejects_nonfinite brute_cKDTree"
  by (simp add: cKDTree_rejects_nonfinite_def brute_cKDTree_def)

lemma brute_BallTree_rejects: "BallTree_rejects_nonfinite brute_BallTree"
  by (simp add: BallTree_rejects_nonfinite_def brute_BallTree_def)

lemma nonfinite_parcels_xy:
  "\<not> finite_parcels parcels \<Longrightarrow> \<not> list_all finite_point (parcels_xy parcels)"
  by (simp add: finite_parcels_def parcels_xy_def finite_point_def list_all_iff)

lemma nonfinite_parcels_rad:
  "\<not> finite_parcels parcels \<Longrightarrow> \<not> list_all finite_point (np_deg2rad (parcels_yx parcels))"
  by (auto simp: finite_parcels_def parcels_yx_def np_deg2rad_def finite_point_def list_all_iff
      isfinite_deg2rad)

lemma planar_nodes_query_error:
  assumes "\<And>tree. cKDTree_query K tree (parcels_xy parcels) = Inl e"
  shows "\<exists>e'. planar_nodes K nodes parcels = Inl e'"
    and "cKDTree K (nodes_xy nodes) = Inr tree \<Longrightarrow> planar_nodes K nodes parcels = Inl e"
  by (simp_all add: planar_nodes_def assms split: sum.splits)

lemma geodesic_nodes_query_error:
  assumes "\<And>tree. BallTree_query B tree (np_deg2rad (parcels_yx parcels)) = Inl e"
  shows "\<exists>e'. geodesic_nodes B nodes parcels = Inl e'"
    and "BallTree B (np_deg2rad (nodes_yx nodes)) Haversine = Inr tree
           \<Longrightarrow> geodesic_nodes B nodes parcels = Inl e"
  by (simp_all add: geodesic_nodes_def assms split: sum.splits)

subsection \<open>Evaluating the sample frames\<close>

lemmas eval_defs =
  planar_nodes_def geodesic_nodes_def brute_cKDTree_def brute_BallTree_def nodes_xy_def
  parcels_xy_def nodes_yx_def parcels_yx_def np_deg2rad_def finite_point_def brute_force_def
  euclidean_def haversine_not_negative haversine_at_pole iloc_index_def set_node_def with_node_def

lemma prepare_pole: "prepare_parcels pole_shp pole_blocks = pole_parcels"
  by (simp add: prepare_parcels_def pole_shp_def pole_blocks_def dropna_geometry_def
      pd_merge_left_def merge_row_def centroid_xy_def pole_parcels_def)

lemma planar_pole:
  "planar_nodes brute_cKDTree pole_nodes pole_parcels = Inr (map (\<lambda>p. with_node p 2) pole_parcels)"
  by (simp add: eval_defs pole_nodes_def pole_parcels_def)

lemma geodesic_pole:
  "geodesic_nodes brute_BallTree pole_nodes pole_parcels = Inr (map (\<lambda>p. with_node p 1) pole_parcels)"
  by (simp add: eval_defs pole_nodes_def pole_parcels_def)

lemma notebook_pole:
  "notebook brute_cKDTree brute_BallTree pole_shp pole_blocks pole_nodes =
     Inr [\<lparr>parcel_id = 7, block_id = Some ''060750101001000'', node_id = 1\<rparr>,
          \<lparr>parcel_id = 9, block_id = None, node_id = 1\<rparr>]"
proof -
  have "geodesic_nodes brute_BallTree pole_nodes (map (\<lambda>p. with_node p 2) pole_parcels)
          = Inr (map (\<lambda>p. with_node p 1) pole_parcels)"
    by (simp add: eval_defs pole_nodes_def pole_parcels_def)
  then show ?thesis
    by (simp add: notebook_def prepare_pole planar_pole)
       (simp add: pole_blocks_def pole_nodes_def df_save_def pole_parcels_def with_node_def)
qed

lemma pole_frames_ok:
  "pole_nodes \<noteq> []" "pole_parcels \<noteq> []" "finite_nodes pole_nodes" "finite_parcels pole_parcels"
  by (simp_all add: pole_nodes_def pole_parcels_def finite_nodes_def finite_parcels_def)

lemma haversine_pole_south: "0 < haversine (Finite (pi / 2), Finite 0) (Finite (4 * pi / 9), Finite 0)"
proof -
  have "0 < sin (pi / 36)" by (intro sin_gt_zero) simp_all
  moreover have "sin (pi / 36) \<le> 1" by simp
  ultimately have "arcsin 0 < arcsin (sin (pi / 36))" by (intro arcsin_less_arcsin) simp_all
  moreover have "(pi / 2 - 4 * pi / 9) / 2 = pi / 36" by simp
  ultimately show ?thesis
    using \<open>0 < sin (pi / 36)\<close> by (simp add: haversine_def)
qed

text \<open>
  A query at the coordinates of the twin nodes has one answer, whatever the library: it
  cannot be the id of each of them.
\<close>

lemma twin_nodes_one_answer:
  "\<not> (planar_nodes K twin_nodes origin_parcels = Inr [with_node (origin_parcels ! 0) 1]
      \<and> planar_nodes K twin_nodes origin_parcels = Inr [with_node (origin_parcels ! 0) 2])"
  by (auto simp: with_node_def)

text \<open>Whatever the library answers on the twin nodes, the reversed frame gets another id.\<close>

lemma twin_nodes_any_library:
  assumes "planar_nodes K twin_nodes origin_parcels = Inr out"
  shows "\<exists>out'. planar_nodes K (rev twin_nodes) origin_parcels = Inr out' \<and> map node out' \<noteq> map node out"
proof -
  from assms obtain tree dists idx where t: "cKDTree K (nodes_xy twin_nodes) = Inr tree"
    and q: "cKDTree_query K tree (parcels_xy origin_parcels) = Inr (dists, idx)"
    and r: "list_all (\<lambda>i. i < length twin_nodes) idx"
    and s: "set_node origin_parcels (map (\<lambda>i. osmid (twin_nodes ! i)) idx) = Inr out"
    by (rule planar_nodes_Inr)
  have xy: "nodes_xy (rev twin_nodes) = nodes_xy twin_nodes"
    by (simp add: nodes_xy_def twin_nodes_def)
  from set_node_columns(1)[OF s] have "length idx = 1" by (simp add: origin_parcels_def)
  then obtain i where idx: "idx = [i]" by (cases idx) auto
  with r have "i = 0 \<or> i = 1" by (auto simp: twin_nodes_def)
  then have ne: "osmid (rev twin_nodes ! i) \<noteq> osmid (twin_nodes ! i)"
    by (auto simp: twin_nodes_def)
  have "planar_nodes K (rev twin_nodes) origin_parcels
          = set_node origin_parcels (map (\<lambda>i. osmid (rev twin_nodes ! i)) idx)"
    using t q r by (simp add: planar_nodes_def xy iloc_index_def)
  moreover have "set_node origin_parcels (map (\<lambda>i. osmid (rev twin_nodes ! i)) idx)
          = Inr (map2 with_node origin_parcels (map (\<lambda>i. osmid (rev twin_nodes ! i)) idx))"
    using idx by (simp add: set_node_def origin_parcels_def)
  moreover have "map node (map2 with_node origin_parcels (map (\<lambda>i. osmid (rev twin_nodes ! i)) idx))
          \<noteq> map node out"
    using ne idx set_node_columns(5)[OF s]
    by (simp add: origin_parcels_def with_node_def)
  ultimately show ?thesis by simp
qed


section \<open>The claims\<close>

subsection \<open>C1: the attached node is a nearest one\<close>

text \<open>
  C1. For libraries that answer the \<^verbatim>\<open>k=1\<close> query exactly, a non-empty node frame and a
  non-empty batch of parcels, all with finite coordinates, both methods attach a node to
  every parcel, and the node id attached is the id of a node that no node of the frame
  beats under the distance of the method: the Euclidean distance of the (x, y) pairs for
  the cKDTree cells, the haversine distance of the (y, x) pairs in radians for the
  BallTree cells.
\<close>

theorem nearest_node_minimises_distance:
  assumes "exact_cKDTree K" "exact_BallTree B" "nodes \<noteq> []" "parcels \<noteq> []"
    "finite_nodes nodes" "finite_parcels parcels"
  shows "(\<exists>out. planar_nodes K nodes parcels = Inr out \<and> length out = length parcels
            \<and> (\<forall>k<length parcels. \<exists>n\<in>set nodes. node (out ! k) = osmid n
                 \<and> (\<forall>m\<in>set nodes. planar_distance (parcels ! k) n \<le> planar_distance (parcels ! k) m)))
       \<and> (\<exists>out. geodesic_nodes B nodes parcels = Inr out \<and> length out = length parcels
            \<and> (\<forall>k<length parcels. \<exists>n\<in>set nodes. node (out ! k) = osmid n
                 \<and> (\<forall>m\<in>set nodes. geodesic_distance (parcels ! k) n \<le> geodesic_distance (parcels ! k) m)))"
proof
  obtain idx where n: "nearest_positions euclidean (nodes_xy nodes) (parcels_xy parcels) idx"
    and p: "planar_nodes K nodes parcels = Inr (map2 with_node parcels (map (\<lambda>i. osmid (nodes ! i)) idx))"
    using planar_nodes_exact[OF assms(1,3,4,5,6)] by blast
  from n have len: "length idx = length parcels" by (simp add: nearest_positions_def parcels_xy_def)
  show "\<exists>out. planar_nodes K nodes parcels = Inr out \<and> length out = length parcels
            \<and> (\<forall>k<length parcels. \<exists>n\<in>set nodes. node (out ! k) = osmid n
                 \<and> (\<forall>m\<in>set nodes. planar_distance (parcels ! k) n \<le> planar_distance (parcels ! k) m))"
    using p len attached_node_minimises[OF n[unfolded nodes_xy_map parcels_xy_map], of planar_distance]
    by (simp add: planar_distance_def)
next
  obtain idx where n: "nearest_positions haversine (np_deg2rad (nodes_yx nodes))
                         (np_deg2rad (parcels_yx parcels)) idx"
    and p: "geodesic_nodes B nodes parcels = Inr (map2 with_node parcels (map (\<lambda>i. osmid (nodes ! i)) idx))"
    using geodesic_nodes_exact[OF assms(2,3,4,5,6)] by blast
  from n have len: "length idx = length parcels"
    by (simp add: nearest_positions_def parcels_rad_map)
  show "\<exists>out. geodesic_nodes B nodes parcels = Inr out \<and> length out = length parcels
            \<and> (\<forall>k<length parcels. \<exists>n\<in>set nodes. node (out ! k) = osmid n
                 \<and> (\<forall>m\<in>set nodes. geodesic_distance (parcels ! k) n \<le> geodesic_distance (parcels ! k) m))"
    using p len attached_node_minimises[OF n[unfolded nodes_rad_map parcels_rad_map], of geodesic_distance]
    by (simp add: geodesic_distance_def)
qed

text \<open>On the sample frames: node 2 in the plane, node 1 on the sphere.\<close>

theorem nearest_node_minimises_distance_witness:
  "planar_nodes brute_cKDTree pole_nodes pole_parcels = Inr (map (\<lambda>p. with_node p 2) pole_parcels)
   \<and> geodesic_nodes brute_BallTree pole_nodes pole_parcels = Inr (map (\<lambda>p. with_node p 1) pole_parcels)
   \<and> (\<exists>out. planar_nodes brute_cKDTree pole_nodes pole_parcels = Inr out \<and> length out = length pole_parcels
            \<and> (\<forall>k<length pole_parcels. \<exists>n\<in>set pole_nodes. node (out ! k) = osmid n
                 \<and> (\<forall>m\<in>set pole_nodes. planar_distance (pole_parcels ! k) n \<le> planar_distance (pole_parcels ! k) m)))
   \<and> (\<exists>out. geodesic_nodes brute_BallTree pole_nodes pole_parcels = Inr out \<and> length out = length pole_parcels
            \<and> (\<forall>k<length pole_parcels. \<exists>n\<in>set pole_nodes. node (out ! k) = osmid n
                 \<and> (\<forall>m\<in>set pole_nodes. geodesic_distance (pole_parcels ! k) n \<le> geodesic_distance (pole_parcels ! k) m)))"
  using nearest_node_minimises_distance[OF brute_cKDTree_exact brute_BallTree_exact pole_frames_ok]
    planar_pole geodesic_pole
  by blast

subsection \<open>C2: an empty node frame\<close>

text \<open>
  The notebook has no check for an empty node frame and no \<^verbatim>\<open>EmptyInputError\<close>; the empty
  array goes to the constructors. With the reference instances, \<^verbatim>\<open>cKDTree\<close> builds an
  index over no points, the query runs and answers the position 0 = n for each parcel,
  and the run ends in the IndexError of \<^verbatim>\<open>nodes.iloc\<close>; \<^verbatim>\<open>BallTree\<close> raises ValueError.
\<close>

theorem empty_node_set_counterexample:
  "cKDTree brute_cKDTree (nodes_xy []) = Inr []
   \<and> cKDTree_query brute_cKDTree [] (parcels_xy pole_parcels) = Inr ([PosInf, PosInf], [0, 0])
   \<and> planar_nodes brute_cKDTree [] pole_parcels = Inl IndexError
   \<and> geodesic_nodes brute_BallTree [] pole_parcels = Inl ValueError"
  by (simp add: eval_defs pole_parcels_def)

text \<open>
  C2 (as amended). With an empty node frame and at least one parcel, neither method
  attaches a node, whatever the libraries do: the run ends in an exception. When the
  constructor raises on the empty array, that exception is the outcome, before any
  query; otherwise the exception comes later, from the query, from \<^verbatim>\<open>nodes.iloc\<close>
  (no position is in range) or from the column assignment.
\<close>

theorem empty_node_set_fails:
  assumes "parcels \<noteq> []"
  shows "(\<forall>out. planar_nodes K [] parcels \<noteq> Inr out)
       \<and> (\<forall>out. geodesic_nodes B [] parcels \<noteq> Inr out)
       \<and> (\<forall>e. cKDTree K [] = Inl e \<longrightarrow> planar_nodes K [] parcels = Inl e)
       \<and> (\<forall>e. BallTree B [] Haversine = Inl e \<longrightarrow> geodesic_nodes B [] parcels = Inl e)"
proof (intro conjI allI impI)
  fix out
  show "planar_nodes K [] parcels \<noteq> Inr out"
  proof
    assume "planar_nodes K [] parcels = Inr out"
    then have "parcels = []"
      by (rule planar_nodes_Inr) (rule no_position_in_empty_frame, assumption, rule refl)
    with assms show False by simp
  qed
  show "geodesic_nodes B [] parcels \<noteq> Inr out"
  proof
    assume "geodesic_nodes B [] parcels = Inr out"
    then have "parcels = []"
      by (rule geodesic_nodes_Inr) (rule no_position_in_empty_frame, assumption, rule refl)
    with assms show False by simp
  qed
next
  fix e assume "cKDTree K [] = Inl e"
  then show "planar_nodes K [] parcels = Inl e" by (simp add: planar_nodes_def nodes_xy_def)
next
  fix e assume "BallTree B [] Haversine = Inl e"
  then show "geodesic_nodes B [] parcels = Inl e"
    by (simp add: geodesic_nodes_def nodes_yx_def np_deg2rad_def)
qed

theorem empty_node_set_fails_witness:
  "pole_parcels \<noteq> []
   \<and> planar_nodes brute_cKDTree [] pole_parcels = Inl IndexError
   \<and> BallTree brute_BallTree [] Haversine = Inl ValueError
   \<and> geodesic_nodes brute_BallTree [] pole_parcels = Inl ValueError"
proof -
  have ne: "pole_parcels \<noteq> []" by (simp add: pole_parcels_def)
  have b: "BallTree brute_BallTree [] Haversine = Inl ValueError" by (simp add: brute_BallTree_def)
  have p: "planar_nodes brute_cKDTree [] pole_parcels = Inl IndexError"
    by (simp add: eval_defs pole_parcels_def)
  show ?thesis
    using empty_node_set_fails[OF ne, of brute_cKDTree brute_BallTree] ne b p by simp
qed

subsection \<open>C3: a parcel with a non-finite coordinate\<close>

text \<open>
  The batch goes to the library in one call, and the notebook has no
  \<^verbatim>\<open>InvalidCoordinateError\<close>. With the reference instances a batch of a parcel with a NaN
  coordinate and a well-formed parcel ends in ValueError under both methods, and the
  well-formed parcel gets no node, although alone it gets one.
\<close>

theorem nan_query_fails_batch_counterexample:
  "planar_nodes brute_cKDTree pole_nodes nan_parcels = Inl ValueError
   \<and> geodesic_nodes brute_BallTree pole_nodes nan_parcels = Inl ValueError
   \<and> planar_nodes brute_cKDTree pole_nodes (tl nan_parcels) = Inr [with_node (nan_parcels ! 1) 2]
   \<and> geodesic_nodes brute_BallTree pole_nodes (tl nan_parcels) = Inr [with_node (nan_parcels ! 1) 1]"
  by (simp add: eval_defs pole_nodes_def nan_parcels_def)

text \<open>
  C3 (as amended). A parcel with a non-finite coordinate is not taken out of the batch:
  the coordinate is in the array that each method gives to the query, non-finite as it
  was (\<^verbatim>\<open>np.deg2rad\<close> keeps it so). With a library whose query raises ValueError on
  such an array, the method fails for the whole batch, with that ValueError once the
  tree is built: no parcel of the batch gets a node, the well-formed ones included, and
  no NaN distance is turned into a node. With any library, a method that returns has
  every parcel of the batch in its result, in order.
\<close>

theorem nonfinite_parcel_fails_batch:
  assumes "\<not> finite_parcels parcels"
  shows "\<not> list_all finite_point (parcels_xy parcels)
       \<and> \<not> list_all finite_point (np_deg2rad (parcels_yx parcels))
       \<and> (cKDTree_rejects_nonfinite K \<longrightarrow>
            (\<exists>e. planar_nodes K nodes parcels = Inl e)
          \<and> (\<forall>tree. cKDTree K (nodes_xy nodes) = Inr tree
                 \<longrightarrow> planar_nodes K nodes parcels = Inl ValueError))
       \<and> (BallTree_rejects_nonfinite B \<longrightarrow>
            (\<exists>e. geodesic_nodes B nodes parcels = Inl e)
          \<and> (\<forall>tree. BallTree B (np_deg2rad (nodes_yx nodes)) Haversine = Inr tree
                 \<longrightarrow> geodesic_nodes B nodes parcels = Inl ValueError))
       \<and> (\<forall>out. planar_nodes K nodes parcels = Inr out \<longrightarrow> map PARCEL_ID out = map PARCEL_ID parcels)
       \<and> (\<forall>out. geodesic_nodes B nodes parcels = Inr out \<longrightarrow> map PARCEL_ID out = map PARCEL_ID parcels)"
proof (intro conjI impI allI)
  show xy: "\<not> list_all finite_point (parcels_xy parcels)"
    by (rule nonfinite_parcels_xy[OF assms])
  show rad: "\<not> list_all finite_point (np_deg2rad (parcels_yx parcels))"
    by (rule nonfinite_parcels_rad[OF assms])
  {
    assume "cKDTree_rejects_nonfinite K"
    with xy have q: "\<And>tree. cKDTree_query K tree (parcels_xy parcels) = Inl ValueError"
      by (simp add: cKDTree_rejects_nonfinite_def)
    show "\<exists>e. planar_nodes K nodes parcels = Inl e"
      by (rule planar_nodes_query_error(1)[OF q])
    show "planar_nodes K nodes parcels = Inl ValueError" if "cKDTree K (nodes_xy nodes) = Inr tree" for tree
      using that by (rule planar_nodes_query_error(2)[OF q])
  }
  {
    assume "BallTree_rejects_nonfinite B"
    with rad have q: "\<And>tree. BallTree_query B tree (np_deg2rad (parcels_yx parcels)) = Inl ValueError"
      by (simp add: BallTree_rejects_nonfinite_def)
    show "\<exists>e. geodesic_nodes B nodes parcels = Inl e"
      by (rule geodesic_nodes_query_error(1)[OF q])
    show "geodesic_nodes B nodes parcels = Inl ValueError"
      if "BallTree B (np_deg2rad (nodes_yx nodes)) Haversine = Inr tree" for tree
      using that by (rule geodesic_nodes_query_error(2)[OF q])
  }
  {
    fix out assume "planar_nodes K nodes parcels = Inr out"
    then obtain v where "set_node parcels v = Inr out" by (rule planar_nodes_Inr)
    then show "map PARCEL_ID out = map PARCEL_ID parcels" by (rule set_node_columns)
  }
  {
    fix out assume "geodesic_nodes B nodes parcels = Inr out"
    then obtain v where "set_node parcels v = Inr out" by (rule geodesic_nodes_Inr)
    then show "map PARCEL_ID out = map PARCEL_ID parcels" by (rule set_node_columns)
  }
qed

theorem nonfinite_parcel_fails_batch_witness:
  "\<not> finite_parcels nan_parcels
   \<and> cKDTree_rejects_nonfinite brute_cKDTree \<and> BallTree_rejects_nonfinite brute_BallTree
   \<and> cKDTree brute_cKDTree (nodes_xy pole_nodes) = Inr (nodes_xy pole_nodes)
   \<and> planar_nodes brute_cKDTree pole_nodes nan_parcels = Inl ValueError
   \<and> BallTree brute_BallTree (np_deg2rad (nodes_yx pole_nodes)) Haversine
        = Inr (np_deg2rad (nodes_yx pole_nodes), Haversine)
   \<and> geodesic_nodes brute_BallTree pole_nodes nan_parcels = Inl ValueError"
proof -
  have nf: "\<not> finite_parcels nan_parcels" by (simp add: finite_parcels_def nan_parcels_def)
  have k: "cKDTree brute_cKDTree (nodes_xy pole_nodes) = Inr (nodes_xy pole_nodes)"
    by (simp add: eval_defs pole_nodes_def)
  have b: "BallTree brute_BallTree (np_deg2rad (nodes_yx pole_nodes)) Haversine
        = Inr (np_deg2rad (nodes_yx pole_nodes), Haversine)"
    by (simp add: eval_defs pole_nodes_def)
  show ?thesis
    using nonfinite_parcel_fails_batch[OF nf, of brute_cKDTree pole_nodes brute_BallTree]
      nf brute_cKDTree_rejects brute_BallTree_rejects k b
    by simp
qed

subsection \<open>C5: the geodesic method works on radians of (latitude, longitude)\<close>

text \<open>
  C5. In the haversine cells the arrays given to \<^verbatim>\<open>BallTree\<close> and to its query hold, for
  each node and each parcel with finite coordinates, the pair (latitude, longitude) in
  radians, taken from (\<^verbatim>\<open>y\<close>, \<^verbatim>\<open>x\<close>) in degrees. The haversine distance of two such pairs
  is the great-circle distance of the two places, and with a \<^verbatim>\<open>BallTree\<close> that is exact
  for the metric it is given, the node attached to a parcel is one at the least
  great-circle distance. The haversine distance is not the straight-line distance of the
  angular coordinates: the two differ for the north pole taken under two longitudes.
\<close>

theorem geodesic_index_is_great_circle:
  assumes "finite_nodes nodes" "finite_parcels parcels"
  shows "np_deg2rad (nodes_yx nodes)
           = map (\<lambda>n. (Finite (radians (val (node_y n))), Finite (radians (val (node_x n))))) nodes
       \<and> np_deg2rad (parcels_yx parcels)
           = map (\<lambda>p. (Finite (radians (val (parcel_y p))), Finite (radians (val (parcel_x p))))) parcels
       \<and> (\<forall>p\<in>set parcels. \<forall>n\<in>set nodes. geodesic_distance p n = great_circle_deg p n)
       \<and> (exact_BallTree B \<and> nodes \<noteq> [] \<and> parcels \<noteq> [] \<longrightarrow>
            (\<exists>out. geodesic_nodes B nodes parcels = Inr out \<and> length out = length parcels
               \<and> (\<forall>k<length parcels. \<exists>n\<in>set nodes. node (out ! k) = osmid n
                    \<and> (\<forall>m\<in>set nodes. great_circle_deg (parcels ! k) n \<le> great_circle_deg (parcels ! k) m))))
       \<and> haversine (Finite (pi / 2), Finite 0) (Finite (pi / 2), Finite pi)
           \<noteq> euclidean (Finite (pi / 2), Finite 0) (Finite (pi / 2), Finite pi)"
proof (intro conjI impI)
  show "np_deg2rad (nodes_yx nodes)
           = map (\<lambda>n. (Finite (radians (val (node_y n))), Finite (radians (val (node_x n))))) nodes"
    using finite_nodes_nth[OF assms(1)] by (simp add: nodes_rad_map deg2rad_finite)
  show "np_deg2rad (parcels_yx parcels)
           = map (\<lambda>p. (Finite (radians (val (parcel_y p))), Finite (radians (val (parcel_x p))))) parcels"
    using finite_parcels_nth[OF assms(2)] by (simp add: parcels_rad_map deg2rad_finite)
  show gc: "\<forall>p\<in>set parcels. \<forall>n\<in>set nodes. geodesic_distance p n = great_circle_deg p n"
    using finite_nodes_nth[OF assms(1)] finite_parcels_nth[OF assms(2)]
    by (simp add: geodesic_distance_great_circle)
  show "haversine (Finite (pi / 2), Finite 0) (Finite (pi / 2), Finite pi)
           \<noteq> euclidean (Finite (pi / 2), Finite 0) (Finite (pi / 2), Finite pi)"
    by (simp add: haversine_at_pole euclidean_def)
  assume lib: "exact_BallTree B \<and> nodes \<noteq> [] \<and> parcels \<noteq> []"
  obtain idx where n: "nearest_positions haversine (np_deg2rad (nodes_yx nodes))
                         (np_deg2rad (parcels_yx parcels)) idx"
    and p: "geodesic_nodes B nodes parcels = Inr (map2 with_node parcels (map (\<lambda>i. osmid (nodes ! i)) idx))"
    using geodesic_nodes_exact[of B nodes parcels] lib assms by blast
  from n have len: "length idx = length parcels"
    by (simp add: nearest_positions_def parcels_rad_map)
  have "\<forall>k<length parcels. \<exists>n\<in>set nodes.
           node (map2 with_node parcels (map (\<lambda>i. osmid (nodes ! i)) idx) ! k) = osmid n
           \<and> (\<forall>m\<in>set nodes. great_circle_deg (parcels ! k) n \<le> great_circle_deg (parcels ! k) m)"
  proof (intro allI impI)
    fix k assume k: "k < length parcels"
    then have pk: "parcels ! k \<in> set parcels" by simp
    from attached_node_minimises[OF n[unfolded nodes_rad_map parcels_rad_map], of geodesic_distance] k
    obtain n where "n \<in> set nodes"
      "node (map2 with_node parcels (map (\<lambda>i. osmid (nodes ! i)) idx) ! k) = osmid n"
      "\<forall>m\<in>set nodes. geodesic_distance (parcels ! k) n \<le> geodesic_distance (parcels ! k) m"
      by (auto simp: geodesic_distance_def)
    with gc pk show "\<exists>n\<in>set nodes.
           node (map2 with_node parcels (map (\<lambda>i. osmid (nodes ! i)) idx) ! k) = osmid n
           \<and> (\<forall>m\<in>set nodes. great_circle_deg (parcels ! k) n \<le> great_circle_deg (parcels ! k) m)"
      by auto
  qed
  with p len show "\<exists>out. geodesic_nodes B nodes parcels = Inr out \<and> length out = length parcels
            \<and> (\<forall>k<length parcels. \<exists>n\<in>set nodes. node (out ! k) = osmid n
                 \<and> (\<forall>m\<in>set nodes. great_circle_deg (parcels ! k) n \<le> great_circle_deg (parcels ! k) m))"
    by simp
qed

text \<open>
  On the sample frames the pole and the first node are one place on the sphere, 180 apart
  in the plane of the degree values.
\<close>

theorem geodesic_index_is_great_circle_witness:
  "np_deg2rad (nodes_yx pole_nodes) = [(Finite (pi / 2), Finite pi), (Finite (4 * pi / 9), Finite 0)]
   \<and> np_deg2rad (parcels_yx pole_parcels) = [(Finite (pi / 2), Finite 0), (Finite (pi / 2), Finite 0)]
   \<and> great_circle_deg (pole_parcels ! 0) (pole_nodes ! 0) = 0
   \<and> planar_distance (pole_parcels ! 0) (pole_nodes ! 0) = 180
   \<and> planar_distance (pole_parcels ! 0) (pole_nodes ! 1) = 10
   \<and> geodesic_nodes brute_BallTree pole_nodes pole_parcels = Inr (map (\<lambda>p. with_node p 1) pole_parcels)"
proof -
  have "geodesic_distance (pole_parcels ! 0) (pole_nodes ! 0) = 0"
    by (simp add: geodesic_distance_def pole_parcels_def pole_nodes_def haversine_at_pole)
  moreover have "planar_distance (pole_parcels ! 0) (pole_nodes ! 0) = 180"
    "planar_distance (pole_parcels ! 0) (pole_nodes ! 1) = 10"
    by (simp_all add: planar_distance_def pole_parcels_def pole_nodes_def euclidean_def)
  moreover have "pole_parcels ! 0 \<in> set pole_parcels" "pole_nodes ! 0 \<in> set pole_nodes"
    by (simp_all add: pole_parcels_def pole_nodes_def)
  ultimately show ?thesis
    using geodesic_index_is_great_circle[OF pole_frames_ok(3,4), of brute_BallTree]
      brute_BallTree_exact pole_frames_ok(1,2) geodesic_pole
    by (auto simp: pole_nodes_def pole_parcels_def radians_def)
qed

subsection \<open>C6: the attached id is an id of the node frame\<close>

text \<open>
  C6. Whatever the libraries answer, whenever a method attaches nodes, every id it
  attaches is the \<^verbatim>\<open>osmid\<close> of a row of the node frame: \<^verbatim>\<open>nodes.iloc\<close> reads the ids from
  the frame and raises on a position outside it.
\<close>

theorem node_id_of_some_node:
  "(planar_nodes K nodes parcels = Inr out \<longrightarrow> set (map node out) \<subseteq> osmid ` set nodes)
   \<and> (geodesic_nodes B nodes parcels = Inr out' \<longrightarrow> set (map node out') \<subseteq> osmid ` set nodes)"
proof (intro conjI impI)
  assume "planar_nodes K nodes parcels = Inr out"
  then obtain idx where i: "list_all (\<lambda>i. i < length nodes) idx"
    and s: "set_node parcels (map (\<lambda>i. osmid (nodes ! i)) idx) = Inr out"
    by (rule planar_nodes_Inr)
  show "set (map node out) \<subseteq> osmid ` set nodes"
    unfolding set_node_columns(5)[OF s] using i by (rule iloc_index_in_nodes)
next
  assume "geodesic_nodes B nodes parcels = Inr out'"
  then obtain idx where i: "list_all (\<lambda>i. i < length nodes) idx"
    and s: "set_node parcels (map (\<lambda>i. osmid (nodes ! i)) idx) = Inr out'"
    by (rule geodesic_nodes_Inr)
  show "set (map node out') \<subseteq> osmid ` set nodes"
    unfolding set_node_columns(5)[OF s] using i by (rule iloc_index_in_nodes)
qed

theorem node_id_of_some_node_witness:
  "planar_nodes brute_cKDTree pole_nodes pole_parcels = Inr (map (\<lambda>p. with_node p 2) pole_parcels)
   \<and> set (map node (map (\<lambda>p. with_node p 2) pole_parcels)) \<subseteq> osmid ` set pole_nodes
   \<and> geodesic_nodes brute_BallTree pole_nodes pole_parcels = Inr (map (\<lambda>p. with_node p 1) pole_parcels)
   \<and> set (map node (map (\<lambda>p. with_node p 1) pole_parcels)) \<subseteq> osmid ` set pole_nodes"
  using node_id_of_some_node[of brute_cKDTree pole_nodes pole_parcels
      "map (\<lambda>p. with_node p 2) pole_parcels" brute_BallTree "map (\<lambda>p. with_node p 1) pole_parcels"]
    planar_pole geodesic_pole
  by simp

subsection \<open>C7: a query at the coordinates of a node\<close>

text \<open>
  Two nodes with the ids 1 and 2 lie at the same coordinates. A query at the coordinates
  of node 2 is also a query at those of node 1 and has one answer: here the id 1, which
  is not the id of node 2. Had the library answered 2, the claim would fail for node 1
  (lemma \<open>twin_nodes_one_answer\<close>).
\<close>

theorem own_coordinates_counterexample:
  "(node_x (twin_nodes ! 1), node_y (twin_nodes ! 1)) = (parcel_x (origin_parcels ! 0), parcel_y (origin_parcels ! 0))
   \<and> osmid (twin_nodes ! 1) = 2
   \<and> planar_nodes brute_cKDTree twin_nodes origin_parcels = Inr [with_node (origin_parcels ! 0) 1]"
  by (simp add: eval_defs twin_nodes_def origin_parcels_def)

text \<open>
  C7 (as amended). With an exact \<^verbatim>\<open>cKDTree\<close> and a node frame of finite coordinates, the
  query at the coordinates of a node n of the frame returns the distance 0 and the
  position of a node at the coordinates of n, whose id the parcel gets. It is the id of
  n when every node at these coordinates has the id of n.
\<close>

theorem own_coordinates_return_colocated_node:
  assumes "exact_cKDTree K" "finite_nodes nodes" "n \<in> set nodes"
    "parcel_x p = node_x n" "parcel_y p = node_y n"
  shows "\<exists>tree i. cKDTree K (nodes_xy nodes) = Inr tree
           \<and> cKDTree_query K tree (parcels_xy [p]) = Inr ([Finite 0], [i])
           \<and> i < length nodes
           \<and> node_x (nodes ! i) = node_x n \<and> node_y (nodes ! i) = node_y n
           \<and> planar_nodes K nodes [p] = Inr [with_node p (osmid (nodes ! i))]
           \<and> ((\<forall>m\<in>set nodes. node_x m = node_x n \<and> node_y m = node_y n \<longrightarrow> osmid m = osmid n)
                \<longrightarrow> osmid (nodes ! i) = osmid n)"
proof -
  have fn: "isfinite (node_x n) \<and> isfinite (node_y n)" by (rule finite_nodes_nth[OF assms(2,3)])
  with assms(4,5) have fp: "finite_parcels [p]" by (simp add: finite_parcels_def)
  from assms(3) have ne: "nodes \<noteq> []" by auto
  obtain tree dists idx where t: "cKDTree K (nodes_xy nodes) = Inr tree"
    and q: "cKDTree_query K tree (parcels_xy [p]) = Inr (dists, idx)"
    and np: "nearest_positions euclidean (nodes_xy nodes) (parcels_xy [p]) idx"
    and d: "dists = map2 (\<lambda>q i. Finite (euclidean q (nodes_xy nodes ! i))) (parcels_xy [p]) idx"
    and pl: "planar_nodes K nodes [p] = Inr (map2 with_node [p] (map (\<lambda>i. osmid (nodes ! i)) idx))"
    using planar_nodes_exact[OF assms(1) ne _ assms(2) fp] by blast
  from np have "length idx = 1" by (simp add: nearest_positions_def parcels_xy_def)
  then obtain i where idx: "idx = [i]" by (cases idx) auto
  have i: "i < length nodes"
    using nearest_positions_rows(1)[OF np[unfolded nodes_xy_map parcels_xy_map], of 0] idx by simp
  have "euclidean (parcel_x p, parcel_y p) (node_x (nodes ! i), node_y (nodes ! i))
          \<le> euclidean (parcel_x p, parcel_y p) (node_x n, node_y n)"
    using nearest_positions_rows(2)[OF np[unfolded nodes_xy_map parcels_xy_map], of 0 n] idx assms(3)
    by simp
  then have le: "euclidean (node_x n, node_y n) (node_x (nodes ! i), node_y (nodes ! i)) \<le> 0"
    by (simp add: assms(4,5) euclidean_self)
  have "nodes ! i \<in> set nodes" using i by simp
  from finite_nodes_nth[OF assms(2) this] fn le
  have same: "(node_x (nodes ! i), node_y (nodes ! i)) = (node_x n, node_y n)"
    by (intro euclidean_zero) (simp_all add: finite_point_def)
  then have xy: "node_x (nodes ! i) = node_x n" "node_y (nodes ! i) = node_y n" by simp_all
  have "dists = [Finite 0]"
    using i by (simp add: d idx parcels_xy_def nodes_xy_def xy assms(4,5) euclidean_self)
  with t q pl idx i xy \<open>nodes ! i \<in> set nodes\<close> show ?thesis by auto
qed

theorem own_coordinates_return_colocated_node_witness:
  "cKDTree brute_cKDTree (nodes_xy twin_nodes) = Inr (nodes_xy twin_nodes)
   \<and> cKDTree_query brute_cKDTree (nodes_xy twin_nodes) (parcels_xy origin_parcels) = Inr ([Finite 0], [0])
   \<and> planar_nodes brute_cKDTree twin_nodes origin_parcels = Inr [with_node (origin_parcels ! 0) 1]
   \<and> (\<exists>tree i. cKDTree brute_cKDTree (nodes_xy pole_nodes) = Inr tree
         \<and> cKDTree_query brute_cKDTree tree (parcels_xy [south_parcel]) = Inr ([Finite 0], [i])
         \<and> osmid (pole_nodes ! i) = 2)"
proof -
  have n: "pole_nodes ! 1 \<in> set pole_nodes" by (simp add: pole_nodes_def)
  have x: "parcel_x south_parcel = node_x (pole_nodes ! 1)"
    and y: "parcel_y south_parcel = node_y (pole_nodes ! 1)"
    by (simp_all add: pole_nodes_def south_parcel_def)
  have u: "\<forall>m\<in>set pole_nodes. node_x m = node_x (pole_nodes ! 1) \<and> node_y m = node_y (pole_nodes ! 1)
             \<longrightarrow> osmid m = osmid (pole_nodes ! 1)"
    by (simp add: pole_nodes_def)
  have o: "osmid (pole_nodes ! 1) = 2" by (simp add: pole_nodes_def)
  have e: "cKDTree brute_cKDTree (nodes_xy twin_nodes) = Inr (nodes_xy twin_nodes)"
    "cKDTree_query brute_cKDTree (nodes_xy twin_nodes) (parcels_xy origin_parcels) = Inr ([Finite 0], [0])"
    "planar_nodes brute_cKDTree twin_nodes origin_parcels = Inr [with_node (origin_parcels ! 0) 1]"
    by (simp_all add: eval_defs twin_nodes_def origin_parcels_def)
  show ?thesis
    using own_coordinates_return_colocated_node[OF brute_cKDTree_exact pole_frames_ok(3) n x y] u o e
    by auto
qed

subsection \<open>C8: the order of the node frame\<close>

text \<open>
  The two nodes at the same coordinates again: the frame and its reverse give the same
  coordinate array, so the library returns the same position, and \<^verbatim>\<open>nodes.iloc\<close> reads
  two different ids at it. Lemma \<open>twin_nodes_any_library\<close> shows this for every library.
\<close>

theorem permuted_nodes_counterexample:
  "mset (rev twin_nodes) = mset twin_nodes
   \<and> planar_nodes brute_cKDTree twin_nodes origin_parcels = Inr [with_node (origin_parcels ! 0) 1]
   \<and> planar_nodes brute_cKDTree (rev twin_nodes) origin_parcels = Inr [with_node (origin_parcels ! 0) 2]
   \<and> geodesic_nodes brute_BallTree twin_nodes origin_parcels = Inr [with_node (origin_parcels ! 0) 1]
   \<and> geodesic_nodes brute_BallTree (rev twin_nodes) origin_parcels = Inr [with_node (origin_parcels ! 0) 2]"
  by (simp add: eval_defs twin_nodes_def origin_parcels_def)

text \<open>
  C8 (as amended). With exact libraries and finite coordinates, a node frame and a
  permutation of it attach the same nodes to a batch under a method whenever each
  parcel of the batch has a nearest node id under that method: a node such that every
  node with another id is strictly farther.
\<close>

theorem permuted_nodes_same_answers:
  assumes "exact_cKDTree K" "exact_BallTree B" "mset nodes' = mset nodes"
    "nodes \<noteq> []" "parcels \<noteq> []" "finite_nodes nodes" "finite_parcels parcels"
  shows "((\<forall>p\<in>set parcels. \<exists>n\<in>set nodes. \<forall>m\<in>set nodes.
             osmid m \<noteq> osmid n \<longrightarrow> planar_distance p n < planar_distance p m)
          \<longrightarrow> planar_nodes K nodes' parcels = planar_nodes K nodes parcels)
       \<and> ((\<forall>p\<in>set parcels. \<exists>n\<in>set nodes. \<forall>m\<in>set nodes.
             osmid m \<noteq> osmid n \<longrightarrow> geodesic_distance p n < geodesic_distance p m)
          \<longrightarrow> geodesic_nodes B nodes' parcels = geodesic_nodes B nodes parcels)"
proof (intro conjI impI)
  have s: "set nodes' = set nodes" using assms(3) by (rule mset_eq_setD)
  with assms(4) have ne': "nodes' \<noteq> []" by auto
  have fin': "finite_nodes nodes'" using assms(6) finite_nodes_set[OF s] by simp
  {
    assume u: "\<forall>p\<in>set parcels. \<exists>n\<in>set nodes. \<forall>m\<in>set nodes.
             osmid m \<noteq> osmid n \<longrightarrow> planar_distance p n < planar_distance p m"
    obtain idx where n: "nearest_positions euclidean (nodes_xy nodes) (parcels_xy parcels) idx"
      and p: "planar_nodes K nodes parcels = Inr (map2 with_node parcels (map (\<lambda>i. osmid (nodes ! i)) idx))"
      using planar_nodes_exact[OF assms(1,4,5,6,7)] by blast
    obtain idx' where n': "nearest_positions euclidean (nodes_xy nodes') (parcels_xy parcels) idx'"
      and p': "planar_nodes K nodes' parcels = Inr (map2 with_node parcels (map (\<lambda>i. osmid (nodes' ! i)) idx'))"
      using planar_nodes_exact[OF assms(1) ne' assms(5) fin' assms(7)] by blast
    have "map (\<lambda>i. osmid (nodes ! i)) idx = map (\<lambda>i. osmid (nodes' ! i)) idx'"
      using unique_nearest_ids[OF n[unfolded nodes_xy_map parcels_xy_map]
          n'[unfolded nodes_xy_map parcels_xy_map] s] u
      by (simp add: planar_distance_def)
    with p p' show "planar_nodes K nodes' parcels = planar_nodes K nodes parcels" by simp
  }
  {
    assume u: "\<forall>p\<in>set parcels. \<exists>n\<in>set nodes. \<forall>m\<in>set nodes.
             osmid m \<noteq> osmid n \<longrightarrow> geodesic_distance p n < geodesic_distance p m"
    obtain idx where n: "nearest_positions haversine (np_deg2rad (nodes_yx nodes))
                           (np_deg2rad (parcels_yx parcels)) idx"
      and p: "geodesic_nodes B nodes parcels = Inr (map2 with_node parcels (map (\<lambda>i. osmid (nodes ! i)) idx))"
      using geodesic_nodes_exact[OF assms(2,4,5,6,7)] by blast
    obtain idx' where n': "nearest_positions haversine (np_deg2rad (nodes_yx nodes'))
                           (np_deg2rad (parcels_yx parcels)) idx'"
      and p': "geodesic_nodes B nodes' parcels = Inr (map2 with_node parcels (map (\<lambda>i. osmid (nodes' ! i)) idx'))"
      using geodesic_nodes_exact[OF assms(2) ne' assms(5) fin' assms(7)] by blast
    have "map (\<lambda>i. osmid (nodes ! i)) idx = map (\<lambda>i. osmid (nodes' ! i)) idx'"
      using unique_nearest_ids[OF n[unfolded nodes_rad_map parcels_rad_map]
          n'[unfolded nodes_rad_map parcels_rad_map] s] u
      by (simp add: geodesic_distance_def)
    with p p' show "geodesic_nodes B nodes' parcels = geodesic_nodes B nodes parcels" by simp
  }
qed

theorem permuted_nodes_same_answers_witness:
  "mset (rev pole_nodes) = mset pole_nodes
   \<and> planar_nodes brute_cKDTree pole_nodes pole_parcels = Inr (map (\<lambda>p. with_node p 2) pole_parcels)
   \<and> planar_nodes brute_cKDTree (rev pole_nodes) pole_parcels = Inr (map (\<lambda>p. with_node p 2) pole_parcels)
   \<and> geodesic_nodes brute_BallTree pole_nodes pole_parcels = Inr (map (\<lambda>p. with_node p 1) pole_parcels)
   \<and> geodesic_nodes brute_BallTree (rev pole_nodes) pole_parcels = Inr (map (\<lambda>p. with_node p 1) pole_parcels)"
proof -
  have m: "mset (rev pole_nodes) = mset pole_nodes" by simp
  have u1: "\<forall>p\<in>set pole_parcels. \<exists>n\<in>set pole_nodes. \<forall>m\<in>set pole_nodes.
             osmid m \<noteq> osmid n \<longrightarrow> planar_distance p n < planar_distance p m"
    by (simp add: pole_parcels_def pole_nodes_def planar_distance_def euclidean_def)
  have u2: "\<forall>p\<in>set pole_parcels. \<exists>n\<in>set pole_nodes. \<forall>m\<in>set pole_nodes.
             osmid m \<noteq> osmid n \<longrightarrow> geodesic_distance p n < geodesic_distance p m"
    using haversine_pole_south
    by (simp add: pole_parcels_def pole_nodes_def geodesic_distance_def haversine_at_pole)
  show ?thesis
    using permuted_nodes_same_answers[OF brute_cKDTree_exact brute_BallTree_exact m pole_frames_ok]
      u1 u2 m planar_pole geodesic_pole
    by simp
qed

subsection \<open>C9: the saved node is the geodesic one\<close>

text \<open>
  C9. Whenever the notebook saves a table, the \<^verbatim>\<open>node_id\<close> of each saved row is the id
  at the position that the haversine query returned for that parcel, which is the
  \<^verbatim>\<open>node\<close> the haversine cells compute on the prepared parcels; the rows are those
  parcels, in order. The \<^verbatim>\<open>node\<close> column that the euclidean cells wrote is replaced as a
  whole, and nothing of it reaches the output.
\<close>

theorem saved_node_is_geodesic:
  assumes "notebook K B shp parcels_blocks nodes = Inr saved"
  shows "\<exists>tree idx parcels.
           BallTree B (np_deg2rad (nodes_yx nodes)) Haversine = Inr tree
         \<and> BallTree_query B tree (np_deg2rad (parcels_yx (prepare_parcels shp parcels_blocks))) = Inr idx
         \<and> geodesic_nodes B nodes (prepare_parcels shp parcels_blocks) = Inr parcels
         \<and> map node_id saved = map (\<lambda>i. osmid (nodes ! i)) idx
         \<and> map node_id saved = map node parcels
         \<and> map parcel_id saved = map PARCEL_ID (prepare_parcels shp parcels_blocks)
         \<and> saved = df_save parcels"
proof -
  from assms obtain ps ps' where p: "planar_nodes K nodes (prepare_parcels shp parcels_blocks) = Inr ps"
    and g: "geodesic_nodes B nodes ps = Inr ps'" and s: "saved = df_save ps'"
    by (auto simp: notebook_def split: if_splits sum.splits)
  from p obtain v where v: "set_node (prepare_parcels shp parcels_blocks) v = Inr ps"
    by (rule planar_nodes_Inr)
  from g have g': "geodesic_nodes B nodes (prepare_parcels shp parcels_blocks) = Inr ps'"
    by (simp add: geodesic_nodes_after_set_node[OF v])
  then obtain tree idx where t: "BallTree B (np_deg2rad (nodes_yx nodes)) Haversine = Inr tree"
    and q: "BallTree_query B tree (np_deg2rad (parcels_yx (prepare_parcels shp parcels_blocks))) = Inr idx"
    and sn: "set_node (prepare_parcels shp parcels_blocks) (map (\<lambda>i. osmid (nodes ! i)) idx) = Inr ps'"
    by (rule geodesic_nodes_Inr)
  have n: "map node_id saved = map node ps'"
    and i: "map parcel_id saved = map PARCEL_ID ps'"
    unfolding s by (simp_all add: df_save_def comp_def)
  from n i set_node_columns(5)[OF sn] set_node_columns(3)[OF sn] t q g' s
  show ?thesis by auto
qed

text \<open>
  On the sample frames the euclidean cells attach node 2 to both parcels and the haversine
  cells node 1; the saved table has node 1 in both rows.
\<close>

theorem saved_node_is_geodesic_witness:
  "planar_nodes brute_cKDTree pole_nodes (prepare_parcels pole_shp pole_blocks)
        = Inr (map (\<lambda>p. with_node p 2) pole_parcels)
   \<and> notebook brute_cKDTree brute_BallTree pole_shp pole_blocks pole_nodes
        = Inr [\<lparr>parcel_id = 7, block_id = Some ''060750101001000'', node_id = 1\<rparr>,
               \<lparr>parcel_id = 9, block_id = None, node_id = 1\<rparr>]
   \<and> (\<exists>tree idx parcels.
           BallTree brute_BallTree (np_deg2rad (nodes_yx pole_nodes)) Haversine = Inr tree
         \<and> BallTree_query brute_BallTree tree (np_deg2rad (parcels_yx (prepare_parcels pole_shp pole_blocks)))
             = Inr idx
         \<and> geodesic_nodes brute_BallTree pole_nodes (prepare_parcels pole_shp pole_blocks) = Inr parcels
         \<and> map (\<lambda>i. osmid (pole_nodes ! i)) idx = [1, 1]
         \<and> map node parcels = [1, 1])"
  using saved_node_is_geodesic[OF notebook_pole] notebook_pole
  by (simp add: prepare_pole planar_pole) metis

subsection \<open>C10: the block id is attached by a left join\<close>

text \<open>
  C10. The merge of cell 8 is a left join on the parcel id. With the unique keys that
  cell 4 asserts of the lookup table, the merged table has the parcels with a geometry,
  each once and in order, and so has the saved table whenever the notebook runs to its
  end; the block of a parcel is the one the lookup table gives for its id, and it is
  null when the id is not a key of the table. The merge itself raises nothing.
\<close>

theorem block_id_left_join:
  assumes "distinct (map fst parcels_blocks)"
  shows "map PARCEL_ID (pd_merge_left parcels parcels_blocks) = map PARCEL_ID parcels
       \<and> map block_geoid (pd_merge_left parcels parcels_blocks)
           = map (\<lambda>r. block_of parcels_blocks (PARCEL_ID r)) parcels
       \<and> (\<forall>k. k \<notin> fst ` set parcels_blocks \<longrightarrow> block_of parcels_blocks k = None)
       \<and> (\<forall>k b. (k, b) \<in> set parcels_blocks \<longrightarrow> block_of parcels_blocks k = b)
       \<and> (notebook K B shp parcels_blocks nodes = Inr saved \<longrightarrow>
            map parcel_id saved = map PARCEL_ID (dropna_geometry shp)
          \<and> map block_id saved = map (\<lambda>r. block_of parcels_blocks (PARCEL_ID r)) (dropna_geometry shp))"
proof (intro conjI allI impI)
  show "map PARCEL_ID (pd_merge_left parcels parcels_blocks) = map PARCEL_ID parcels"
    by (simp add: pd_merge_left_distinct[OF assms] merge_row_def comp_def)
  show "map block_geoid (pd_merge_left parcels parcels_blocks)
           = map (\<lambda>r. block_of parcels_blocks (PARCEL_ID r)) parcels"
    by (simp add: pd_merge_left_distinct[OF assms] merge_row_def comp_def)
  show "block_of parcels_blocks k = None" if "k \<notin> fst ` set parcels_blocks" for k
    using that by (rule block_of_absent)
  show "block_of parcels_blocks k = b" if "(k, b) \<in> set parcels_blocks" for k b
    using assms that by (rule block_of_present)
next
  assume nb: "notebook K B shp parcels_blocks nodes = Inr saved"
  then obtain ps ps' where p: "planar_nodes K nodes (prepare_parcels shp parcels_blocks) = Inr ps"
    and g: "geodesic_nodes B nodes ps = Inr ps'" and s: "saved = df_save ps'"
    by (auto simp: notebook_def split: if_splits sum.splits)
  from p obtain v where v: "set_node (prepare_parcels shp parcels_blocks) v = Inr ps"
    by (rule planar_nodes_Inr)
  from g obtain v' where v': "set_node ps v' = Inr ps'"
    by (rule geodesic_nodes_Inr)
  have ids: "map PARCEL_ID ps' = map PARCEL_ID (dropna_geometry shp)"
    using set_node_columns(3)[OF v'] set_node_columns(3)[OF v] prepare_parcels_distinct(1)[OF assms]
    by simp
  have blocks: "map block_geoid ps' = map (\<lambda>r. block_of parcels_blocks (PARCEL_ID r)) (dropna_geometry shp)"
    using set_node_columns(4)[OF v'] set_node_columns(4)[OF v] prepare_parcels_distinct(2)[OF assms]
    by simp
  show "map parcel_id saved = map PARCEL_ID (dropna_geometry shp)"
    unfolding s ids[symmetric] by (simp add: df_save_def comp_def)
  show "map block_id saved = map (\<lambda>r. block_of parcels_blocks (PARCEL_ID r)) (dropna_geometry shp)"
    unfolding s blocks[symmetric] by (simp add: df_save_def comp_def)
qed

theorem block_id_left_join_witness:
  "distinct (map fst pole_blocks)
   \<and> map PARCEL_ID (pd_merge_left (dropna_geometry pole_shp) pole_blocks) = [7, 9]
   \<and> map block_geoid (pd_merge_left (dropna_geometry pole_shp) pole_blocks)
        = [Some ''060750101001000'', None]
   \<and> block_of pole_blocks 9 = None
   \<and> notebook brute_cKDTree brute_BallTree pole_shp pole_blocks pole_nodes
        = Inr [\<lparr>parcel_id = 7, block_id = Some ''060750101001000'', node_id = 1\<rparr>,
               \<lparr>parcel_id = 9, block_id = None, node_id = 1\<rparr>]"
proof -
  have d: "distinct (map fst pole_blocks)" by (simp add: pole_blocks_def)
  have shp: "dropna_geometry pole_shp =
      [\<lparr>PARCEL_ID = 7, geometry = Some (Finite 0, Finite 90)\<rparr>,
       \<lparr>PARCEL_ID = 9, geometry = Some (Finite 0, Finite 90)\<rparr>]"
    by (simp add: dropna_geometry_def pole_shp_def)
  have b: "block_of pole_blocks 7 = Some ''060750101001000''" "block_of pole_blocks 9 = None"
    by (simp_all add: block_of_def pole_blocks_def)
  show ?thesis
    using block_id_left_join[OF d, of "dropna_geometry pole_shp" brute_cKDTree brute_BallTree
        pole_shp pole_nodes] d notebook_pole
    by (simp add: shp b)
qed


end
